theory Spec2Isabelle
  imports Main
begin

section \<open>Promises and control flow of an async function\<close>

text \<open>
  An \<^verbatim>\<open>Error\<close> is modelled by its message. A promise, once settled, is resolved with a
  value or rejected with an error.
\<close>

type_synonym msg = string

datatype 'a promise = Resolved 'a | Rejected msg

text \<open>
  A statement of an async function body, run on a state, either completes and control
  goes on to the next statement (\<open>Next\<close>), or throws (\<open>Throw\<close>: an enclosing
  \<^verbatim>\<open>try\<close> catches it), or leaves the function by a \<^verbatim>\<open>return\<close> statement
  (\<open>Return\<close>). Every \<^verbatim>\<open>return\<close> of the source returns a promise made by
  \<^verbatim>\<open>Promise.resolve\<close> or \<^verbatim>\<open>Promise.reject\<close>; a returned rejected promise is not an
  exception inside the function, so no \<^verbatim>\<open>catch\<close> block of the function sees it.
\<close>

datatype ('r, 'a) ctl = Next 'a | Throw msg | Return "'r promise"

type_synonym ('r, 'a, 's) stmt = "'s \<Rightarrow> ('r, 'a) ctl \<times> 's"

definition next_stmt :: "'a \<Rightarrow> ('r, 'a, 's) stmt" where
  "next_stmt x s = (Next x, s)"

definition return_stmt :: "'r promise \<Rightarrow> ('r, 'a, 's) stmt" where
  "return_stmt p s = (Return p, s)"

definition assign :: "('s \<Rightarrow> 's) \<Rightarrow> ('r, unit, 's) stmt" where
  "assign f s = (Next (), f s)"

definition andThen :: "('r, 'a, 's) stmt \<Rightarrow> ('a \<Rightarrow> ('r, 'b, 's) stmt) \<Rightarrow> ('r, 'b, 's) stmt" where
  "andThen m f s =
     (case m s of
        (Next x, s') \<Rightarrow> f x s'
      | (Throw e, s') \<Rightarrow> (Throw e, s')
      | (Return p, s') \<Rightarrow> (Return p, s'))"

definition try_catch :: "('r, 'a, 's) stmt \<Rightarrow> (msg \<Rightarrow> ('r, 'a, 's) stmt) \<Rightarrow> ('r, 'a, 's) stmt" where
  "try_catch m h s =
     (case m s of
        (Throw e, s') \<Rightarrow> h e s'
      | (Next x, s') \<Rightarrow> (Next x, s')
      | (Return p, s') \<Rightarrow> (Return p, s'))"

text \<open>
  The promise an async function gives its caller: the returned promise, a rejection when
  the body throws, and a promise resolved with \<^verbatim>\<open>undefined\<close> (the argument \<open>u\<close>) when
  control runs off the end of the body.
\<close>

definition async :: "'r \<Rightarrow> ('r, unit, 's) stmt \<Rightarrow> 's \<Rightarrow> 'r promise \<times> 's" where
  "async u m s =
     (case m s of
        (Next x, s') \<Rightarrow> (Resolved u, s')
      | (Throw e, s') \<Rightarrow> (Rejected e, s')
      | (Return p, s') \<Rightarrow> (p, s'))"

section \<open>The collaborators of the class\<close>

text \<open>
  \<^verbatim>\<open>Database.ts\<close> imports \<^verbatim>\<open>UtilsSQLite\<close>, \<^verbatim>\<open>UtilsFile\<close>, \<^verbatim>\<open>UtilsUpgrade\<close>,
  \<^verbatim>\<open>UtilsEncryption\<close>, \<^verbatim>\<open>UtilsJson\<close>, \<^verbatim>\<open>ImportFromJson\<close>, \<^verbatim>\<open>ExportToJson\<close> and
  \<^verbatim>\<open>GlobalSQLite\<close>, and drives the connection object \<^verbatim>\<open>_mDB\<close> of the SQLite driver.
  None of them is part of the file, so they are parameters: each is a function on the
  world \<open>'w\<close> outside the object (the files, the engine) that gives the new world and
  either a value or the message of the error it rejects with.
\<close>

text \<open>
  The connection handle is opaque to the class; it is known here by the path of the file
  it has open.
\<close>

type_synonym conn = string

type_synonym ('a, 'w) ext = "'w \<Rightarrow> (msg + 'a) \<times> 'w"

datatype jsany = JNull | JNum int | JStr string

text \<open>
  \<^verbatim>\<open>JsonSQLite\<close> (from \<^verbatim>\<open>../definitions\<close>): the fields \<^verbatim>\<open>database\<close>, \<^verbatim>\<open>version\<close>,
  \<^verbatim>\<open>encrypted\<close> and \<^verbatim>\<open>mode\<close> that \<^verbatim>\<open>exportJson\<close> assigns, prefixed here because the
  class has fields of the same names, and the tables, which \<^verbatim>\<open>exportJson\<close> leaves unset.
\<close>

record jsonSQLite =
  json_database :: string
  json_version :: int
  json_encrypted :: bool
  json_mode :: string
  json_tables :: "string list option"

record ('w, 'u) collaborators =
  uGlobal_secret :: string
  uGlobal_newsecret :: string
  uFile_getFilePath :: "string \<Rightarrow> string"
  uFile_deleteFileName :: "string \<Rightarrow> (unit, 'w) ext"
  uFile_restoreFileName :: "string \<Rightarrow> string \<Rightarrow> (unit, 'w) ext"
  uEncrypt_encryptDatabase :: "string \<Rightarrow> string \<Rightarrow> (unit, 'w) ext"
  uUpg_onUpgrade :: "conn option \<Rightarrow> 'u \<Rightarrow> string \<Rightarrow> int \<Rightarrow> int \<Rightarrow> (unit, 'w) ext"
  uSQLite_changePassword :: "string \<Rightarrow> string \<Rightarrow> string \<Rightarrow> (unit, 'w) ext"
  uSQLite_openOrCreateDatabase :: "string \<Rightarrow> string \<Rightarrow> (conn, 'w) ext"
  uSQLite_getVersion :: "conn option \<Rightarrow> (int, 'w) ext"
  uSQLite_beginTransaction :: "conn option \<Rightarrow> bool \<Rightarrow> (unit, 'w) ext"
  uSQLite_commitTransaction :: "conn option \<Rightarrow> bool \<Rightarrow> (unit, 'w) ext"
  uSQLite_rollbackTransaction :: "conn option \<Rightarrow> bool \<Rightarrow> (unit, 'w) ext"
  uSQLite_execute :: "conn option \<Rightarrow> string \<Rightarrow> (int, 'w) ext"
  uSQLite_executeSet :: "conn option \<Rightarrow> (string \<times> jsany list) list \<Rightarrow> (int, 'w) ext"
  uSQLite_dbChanges :: "conn option \<Rightarrow> (int, 'w) ext"
  uSQLite_getLastId :: "conn option \<Rightarrow> (int, 'w) ext"
  uJson_isTableExists :: "conn option \<Rightarrow> bool \<Rightarrow> string \<Rightarrow> (bool, 'w) ext"
  uJson_isJsonSQLite :: "jsonSQLite \<Rightarrow> bool"
  iFJson_createDatabaseSchema :: "conn option \<Rightarrow> jsonSQLite \<Rightarrow> (int, 'w) ext"
  iFJson_createTablesData :: "conn option \<Rightarrow> jsonSQLite \<Rightarrow> (int, 'w) ext"
  eTJson_createExportObject :: "conn option \<Rightarrow> jsonSQLite \<Rightarrow> (jsonSQLite, 'w) ext"
  mDB_close :: "conn option \<Rightarrow> (unit, 'w) ext"
  mDB_run :: "conn option \<Rightarrow> string \<Rightarrow> jsany list \<Rightarrow> (unit, 'w) ext"

text \<open>
  The log of the calls the class makes to its collaborators, each with what came back.
  It is not a field of the class: it is kept so that properties of the order of the
  calls can be stated.
\<close>

datatype call =
    ChangePassword | EncryptDatabase | OpenOrCreateDatabase | GetVersion
  | OnUpgrade int int | DeleteFileName string | RestoreFileName string string
  | MDBClose | MDBRun string | IsTableExists string
  | BeginTransaction | CommitTransaction | RollbackTransaction
  | Execute string | ExecuteSet | DbChanges | GetLastId
  | CreateDatabaseSchema | CreateTablesData | CreateExportObject jsonSQLite

datatype rval = Void | Num int | Flag bool | Handle conn

datatype outcome = Threw msg | Gave rval

type_synonym event = "call \<times> outcome"

section \<open>The class Database\<close>

text \<open>
  The private fields of the class (without their leading underscore), then the world
  outside the object and the log of calls. \<^verbatim>\<open>_mDB\<close> is \<open>None\<close> until \<^verbatim>\<open>open\<close> assigns it.
  A version is a JavaScript number holding an integer.
\<close>

record ('w, 'u) Database =
  isDBOpen :: bool
  dbName :: string
  encrypted :: bool
  mode :: string
  version :: int
  pathDB :: string
  mDB :: "conn option"
  vUpgDict :: 'u
  world :: 'w
  calls :: "event list"

text \<open>One call of a collaborator: the world moves on and the call is logged.\<close>

definition invoke ::
  "call \<Rightarrow> ('a \<Rightarrow> rval) \<Rightarrow> ('a, 'w) ext \<Rightarrow> ('w, 'u) Database \<Rightarrow> (msg + 'a) \<times> ('w, 'u) Database" where
  "invoke k shw f d =
     (case f (world d) of
        (Inl e, w') \<Rightarrow> (Inl e, d\<lparr>world := w', calls := calls d @ [(k, Threw e)]\<rparr>)
      | (Inr x, w') \<Rightarrow> (Inr x, d\<lparr>world := w', calls := calls d @ [(k, Gave (shw x))]\<rparr>))"

text \<open>\<^verbatim>\<open>await f(...)\<close>: the value of the call, or its rejection thrown.\<close>

definition await ::
  "call \<Rightarrow> ('a \<Rightarrow> rval) \<Rightarrow> ('a, 'w) ext \<Rightarrow> ('r, 'a, ('w, 'u) Database) stmt" where
  "await k shw f d =
     (case invoke k shw f d of
        (Inl e, d') \<Rightarrow> (Throw e, d')
      | (Inr x, d') \<Rightarrow> (Next x, d'))"

definition void :: "unit \<Rightarrow> rval" where
  "void u = Void"

text \<open>The constructor (lines 30-48): it throws when no path can be made for the name.\<close>

definition new_Database ::
  "('w, 'u) collaborators \<Rightarrow> string \<Rightarrow> bool \<Rightarrow> string \<Rightarrow> int \<Rightarrow> 'u \<Rightarrow> 'w \<Rightarrow> msg + ('w, 'u) Database" where
  "new_Database c name enc md ver upgDict w =
     (let d = \<lparr>isDBOpen = False, dbName = name, encrypted = enc, mode = md, version = ver,
                pathDB = uFile_getFilePath c name, mDB = None, vUpgDict = upgDict,
                world = w, calls = []\<rparr>
      in if length (pathDB d) = 0 then Inl (''Could not generate a path to '' @ name)
         else Inr d)"

definition is_DBOpen :: "('w, 'u) Database \<Rightarrow> bool" where
  "is_DBOpen d = isDBOpen d"

subsection \<open>close (lines 125-138)\<close>

text \<open>
  The function given to the driver's \<^verbatim>\<open>close\<close> (lines 127-135). The driver calls it
  with the error, if any, once the connection is released, and drops what it returns.
\<close>

definition close_callback :: "msg option \<Rightarrow> (unit, unit, ('w, 'u) Database) stmt" where
  "close_callback err d =
     (case err of
        Some m \<Rightarrow> return_stmt (Rejected (''Close: Failed in closing: '' @ dbName d @ ''  '' @ m)) d
      | None \<Rightarrow> andThen (assign (\<lambda>d. d\<lparr>isDBOpen := False\<rparr>)) (\<lambda>_. return_stmt (Resolved ())) d)"

text \<open>
  The driver runs the callback after \<^verbatim>\<open>close\<close> has returned its promise; the model runs
  it at once. The promise of \<^verbatim>\<open>close\<close> is made on line 137 in either case and does not
  wait for the callback.
\<close>

definition close :: "('w, 'u) collaborators \<Rightarrow> ('w, 'u) Database \<Rightarrow> unit promise \<times> ('w, 'u) Database" where
  "close c d =
     async ()
       (andThen
          (if mDB d \<noteq> None \<and> isDBOpen d
           then (\<lambda>d. case invoke MDBClose void (mDB_close c (mDB d)) d of
                        (Inl e, d') \<Rightarrow> (Next (), snd (close_callback (Some e) d'))
                      | (Inr _, d') \<Rightarrow> (Next (), snd (close_callback None d')))
           else next_stmt ())
          (\<lambda>_. return_stmt (Resolved ())))
       d"

subsection \<open>open (lines 64-119)\<close>

text \<open>The upgrade flow with its two handlers (lines 94-112).\<close>

definition open_upgrade ::
  "('w, 'u) collaborators \<Rightarrow> int \<Rightarrow> (unit, unit, ('w, 'u) Database) stmt" where
  "open_upgrade c curVersion d =
     try_catch
       (andThen
          (await (OnUpgrade curVersion (version d)) void
             (uUpg_onUpgrade c (mDB d) (vUpgDict d) (dbName d) curVersion (version d)))
          (\<lambda>_. await (DeleteFileName (''backup-'' @ dbName d)) void
             (uFile_deleteFileName c (''backup-'' @ dbName d))))
       (\<lambda>err.
          try_catch
            (await (RestoreFileName (dbName d) ''backup'') void
               (uFile_restoreFileName c (dbName d) ''backup''))
            (\<lambda>err. return_stmt (Rejected (''Open: '' @ err))))
       d"

text \<open>
  From the password to the version read (lines 68-91): the value is \<^verbatim>\<open>curVersion\<close>.
\<close>

definition open_connect :: "('w, 'u) collaborators \<Rightarrow> (unit, int, ('w, 'u) Database) stmt" where
  "open_connect c d =
     (let password =
        (if encrypted d \<and> (mode d = ''secret'' \<or> mode d = ''encryption'')
         then uGlobal_secret c else '''')
      in
      andThen
        (if mode d = ''newsecret''
         then andThen
                (await ChangePassword void
                   (uSQLite_changePassword c (pathDB d) (uGlobal_secret c) (uGlobal_newsecret c)))
                (\<lambda>_. next_stmt (uGlobal_newsecret c))
         else next_stmt password)
        (\<lambda>password.
      andThen
        (if mode d = ''encryption''
         then await EncryptDatabase void (uEncrypt_encryptDatabase c (pathDB d) password)
         else next_stmt ())
        (\<lambda>_.
      andThen
        (await OpenOrCreateDatabase Handle (uSQLite_openOrCreateDatabase c (pathDB d) password))
        (\<lambda>h.
      andThen (assign (\<lambda>d. d\<lparr>mDB := Some h\<rparr>))
        (\<lambda>_.
      andThen (await GetVersion Num (uSQLite_getVersion c (Some h)))
        (\<lambda>curVersion.
      andThen (assign (\<lambda>d. d\<lparr>isDBOpen := True\<rparr>))
        (\<lambda>_. next_stmt curVersion))))))
        d)"

text \<open>The body of the outer \<^verbatim>\<open>try\<close> (lines 68-114).\<close>

definition open_try :: "('w, 'u) collaborators \<Rightarrow> (unit, unit, ('w, 'u) Database) stmt" where
  "open_try c d =
     andThen (open_connect c)
       (\<lambda>curVersion.
     andThen
       (if version d > curVersion then open_upgrade c curVersion else next_stmt ())
       (\<lambda>_. return_stmt (Resolved ())))
       d"

text \<open>
  \<^verbatim>\<open>open\<close> is a keyword of Isabelle, hence the suffix. In the outer handler
  \<^verbatim>\<open>this.close()\<close> is called and its promise dropped.
\<close>

definition open_db :: "('w, 'u) collaborators \<Rightarrow> ('w, 'u) Database \<Rightarrow> unit promise \<times> ('w, 'u) Database" where
  "open_db c d =
     async ()
       (andThen (assign (\<lambda>d. d\<lparr>isDBOpen := False\<rparr>))
          (\<lambda>_. try_catch (open_try c)
                  (\<lambda>err.
                     andThen (\<lambda>d. if isDBOpen d then (Next (), snd (close c d)) else (Next (), d))
                       (\<lambda>_. return_stmt (Rejected (''Open: '' @ err))))))
       d"

subsection \<open>executeSQL (lines 295-318)\<close>

text \<open>
  A function that returns a value gives a promise of \<open>Some\<close> value; \<open>None\<close> is
  \<^verbatim>\<open>undefined\<close>, what an async function resolves with when control runs off its end.
\<close>

definition not_opened :: "string \<Rightarrow> ('w, 'u) Database \<Rightarrow> msg" where
  "not_opened fname d = fname @ '': Database '' @ dbName d @ '' not opened''"

definition executeSQL ::
  "('w, 'u) collaborators \<Rightarrow> string \<Rightarrow> ('w, 'u) Database \<Rightarrow> int option promise \<times> ('w, 'u) Database" where
  "executeSQL c sql d =
     async None
       (if \<not> isDBOpen d then return_stmt (Rejected (not_opened ''ExecuteSQL'' d))
        else
          try_catch
            (andThen (await BeginTransaction void (uSQLite_beginTransaction c (mDB d) (isDBOpen d)))
               (\<lambda>_.
             andThen (await (Execute sql) Num (uSQLite_execute c (mDB d) sql))
               (\<lambda>changes.
             if changes < 0 then return_stmt (Rejected ''ExecuteSQL: changes < 0'')
             else
               andThen (await CommitTransaction void (uSQLite_commitTransaction c (mDB d) (isDBOpen d)))
                 (\<lambda>_. return_stmt (Resolved (Some changes))))))
            (\<lambda>err.
               andThen
                 (try_catch
                    (andThen
                       (await RollbackTransaction void
                          (uSQLite_rollbackTransaction c (mDB d) (isDBOpen d)))
                       (\<lambda>_. next_stmt (''ExecuteSQL: '' @ err)))
                    (\<lambda>err'. next_stmt ((''ExecuteSQL: '' @ err) @ '' : '' @ err')))
                 (\<lambda>msg. return_stmt (Rejected (''ExecuteSQL: '' @ msg)))))
       d"

subsection \<open>runSQL (lines 346-384)\<close>

record retRes =
  changes :: int
  lastId :: int

text \<open>
  The async function given to the driver's \<^verbatim>\<open>run\<close> (lines 361-383). The driver calls it
  with the error of the statement, if any, and drops the promise it returns.
\<close>

definition runSQL_callback ::
  "('w, 'u) collaborators \<Rightarrow> int \<Rightarrow> msg option \<Rightarrow> ('w, 'u) Database \<Rightarrow> retRes option promise \<times> ('w, 'u) Database" where
  "runSQL_callback c initChanges err d =
     async None
       (case err of
          Some m \<Rightarrow>
            try_catch
              (andThen
                 (await RollbackTransaction void
                    (uSQLite_rollbackTransaction c (mDB d) (isDBOpen d)))
                 (\<lambda>_. return_stmt (Rejected (''RunSQL: '' @ m))))
              (\<lambda>err'. return_stmt (Rejected (''RunSQL: '' @ m @ '': '' @ err')))
        | None \<Rightarrow>
            try_catch
              (andThen (await CommitTransaction void (uSQLite_commitTransaction c (mDB d) (isDBOpen d)))
                 (\<lambda>_.
               andThen (await DbChanges Num (uSQLite_dbChanges c (mDB d)))
                 (\<lambda>n.
               andThen (await GetLastId Num (uSQLite_getLastId c (mDB d)))
                 (\<lambda>l. return_stmt (Resolved (Some \<lparr>changes = n - initChanges, lastId = l\<rparr>))))))
              (\<lambda>err'. return_stmt (Rejected (''RunSQL: '' @ err'))))
       d"

text \<open>
  As for \<^verbatim>\<open>close\<close>, the model runs the callback at once. Nothing follows the call of
  \<^verbatim>\<open>run\<close> on line 361: control runs off the end of \<^verbatim>\<open>runSQL\<close>. Calling \<^verbatim>\<open>run\<close> on a
  connection that was never assigned is a \<^verbatim>\<open>TypeError\<close>, thrown outside any \<^verbatim>\<open>try\<close>.
\<close>

definition runSQL ::
  "('w, 'u) collaborators \<Rightarrow> string \<Rightarrow> jsany list \<Rightarrow> ('w, 'u) Database \<Rightarrow> retRes option promise \<times> ('w, 'u) Database" where
  "runSQL c statement values d =
     async None
       (if \<not> isDBOpen d then return_stmt (Rejected (not_opened ''RunSQL'' d))
        else
          andThen
            (try_catch
               (andThen (await DbChanges Num (uSQLite_dbChanges c (mDB d)))
                  (\<lambda>n.
                andThen (await BeginTransaction void (uSQLite_beginTransaction c (mDB d) (isDBOpen d)))
                  (\<lambda>_. next_stmt n)))
               (\<lambda>err. return_stmt (Rejected (''RunSQL: '' @ err))))
            (\<lambda>initChanges d.
               case mDB d of
                 None \<Rightarrow> (Throw ''TypeError: _mDB is undefined'', d)
               | Some h \<Rightarrow>
                   (case invoke (MDBRun statement) void (mDB_run c (mDB d) statement values) d of
                      (Inl e, d') \<Rightarrow> (Next (), snd (runSQL_callback c initChanges (Some e) d'))
                    | (Inr _, d') \<Rightarrow> (Next (), snd (runSQL_callback c initChanges None d')))))
       d"

subsection \<open>execSet (lines 391-421)\<close>

definition execSet ::
  "('w, 'u) collaborators \<Rightarrow> (string \<times> jsany list) list \<Rightarrow> ('w, 'u) Database \<Rightarrow> retRes option promise \<times> ('w, 'u) Database" where
  "execSet c set' d =
     async None
       (if \<not> isDBOpen d then return_stmt (Rejected (not_opened ''ExecSet'' d))
        else
          andThen
            (try_catch
               (andThen (await DbChanges Num (uSQLite_dbChanges c (mDB d)))
                  (\<lambda>n.
                andThen (await BeginTransaction void (uSQLite_beginTransaction c (mDB d) (isDBOpen d)))
                  (\<lambda>_. next_stmt n)))
               (\<lambda>err. return_stmt (Rejected (''ExecSet: '' @ err))))
            (\<lambda>initChanges.
               try_catch
                 (andThen (await ExecuteSet Num (uSQLite_executeSet c (mDB d) set'))
                    (\<lambda>l.
                  andThen (await CommitTransaction void (uSQLite_commitTransaction c (mDB d) (isDBOpen d)))
                    (\<lambda>_.
                  andThen (await DbChanges Num (uSQLite_dbChanges c (mDB d)))
                    (\<lambda>n. return_stmt (Resolved (Some \<lparr>changes = n - initChanges, lastId = l\<rparr>))))))
                 (\<lambda>err.
                    try_catch
                      (await RollbackTransaction void
                         (uSQLite_rollbackTransaction c (mDB d) (isDBOpen d)))
                      (\<lambda>err'. return_stmt (Rejected (''ExecSet: '' @ err @ '': '' @ err'))))))
       d"

subsection \<open>createSyncTable (lines 203-238)\<close>

text \<open>\<^verbatim>\<open>await\<close> of the promise of a method of the class itself.\<close>

definition await_promise :: "('s \<Rightarrow> 'a promise \<times> 's) \<Rightarrow> ('r, 'a, 's) stmt" where
  "await_promise f s =
     (case f s of
        (Resolved x, s') \<Rightarrow> (Next x, s')
      | (Rejected e, s') \<Rightarrow> (Throw e, s'))"

fun string_of_nat :: "nat \<Rightarrow> string" where
  "string_of_nat n =
     (if n < 10 then [char_of (48 + n)]
      else string_of_nat (n div 10) @ [char_of (48 + n mod 10)])"

definition string_of_int :: "int \<Rightarrow> string" where
  "string_of_int i = (if i < 0 then CHR ''-'' # string_of_nat (nat (- i)) else string_of_nat (nat i))"

text \<open>
  The two statements of lines 220-226, with the line breaks and the indentation of the
  template literals. \<open>date\<close> is \<^verbatim>\<open>Math.round(new Date().getTime() / 1000)\<close>.
\<close>

definition sync_stmts :: "int \<Rightarrow> string" where
  "sync_stmts date =
     (CHR 0x0A # replicate 24 CHR '' '') @ ''CREATE TABLE IF NOT EXISTS sync_table ('' @
     (CHR 0x0A # replicate 28 CHR '' '') @ ''id INTEGER PRIMARY KEY NOT NULL,'' @
     (CHR 0x0A # replicate 28 CHR '' '') @ ''sync_date INTEGER'' @
     (CHR 0x0A # replicate 28 CHR '' '') @ '');'' @
     ''INSERT INTO sync_table (sync_date) VALUES ('' @
     (CHR 0x0A # replicate 28 CHR '' '') @ [CHR 0x22] @ string_of_int date @ [CHR 0x22] @ '');''"

text \<open>
  \<open>now\<close> is the reading of the clock, \<^verbatim>\<open>new Date().getTime()\<close>, in milliseconds.
  \<^verbatim>\<open>changes\<close> starts at \<open>-1\<close> and is assigned only when the table does not exist yet.
\<close>

definition createSyncTable ::
  "('w, 'u) collaborators \<Rightarrow> int \<Rightarrow> ('w, 'u) Database \<Rightarrow> int option promise \<times> ('w, 'u) Database" where
  "createSyncTable c now d =
     async None
       (if \<not> isDBOpen d then return_stmt (Rejected (not_opened ''CreateSyncTable'' d))
        else
          try_catch
            (andThen
               (await (IsTableExists ''sync_table'') Flag
                  (uJson_isTableExists c (mDB d) (isDBOpen d) ''sync_table''))
               (\<lambda>retB.
             andThen
               (if \<not> retB
                then andThen (await_promise (executeSQL c (sync_stmts ((now + 500) div 1000))))
                       (\<lambda>changes.
                          if (case changes of Some n \<Rightarrow> n < 0 | None \<Rightarrow> False)
                          then return_stmt (Rejected ''CreateSyncTable: failed changes < 0'')
                          else next_stmt changes)
                else next_stmt (Some (- 1)))
               (\<lambda>changes. return_stmt (Resolved changes))))
            (\<lambda>err. return_stmt (Rejected (''CreateSyncTable: '' @ err))))
       d"

subsection \<open>importJson (lines 422-439)\<close>

definition importJson ::
  "('w, 'u) collaborators \<Rightarrow> jsonSQLite \<Rightarrow> ('w, 'u) Database \<Rightarrow> int option promise \<times> ('w, 'u) Database" where
  "importJson c jsonData d =
     async None
       (if isDBOpen d
        then
          try_catch
            (andThen
               (await CreateDatabaseSchema Num (iFJson_createDatabaseSchema c (mDB d) jsonData))
               (\<lambda>changes.
             andThen
               (if changes \<noteq> - 1
                then await CreateTablesData Num (iFJson_createTablesData c (mDB d) jsonData)
                else next_stmt changes)
               (\<lambda>changes. return_stmt (Resolved (Some changes)))))
            (\<lambda>err. return_stmt (Rejected (''ImportJson: '' @ err)))
        else return_stmt (Rejected ''ImportJson: database is closed''))
       d"

subsection \<open>exportJson (lines 440-464)\<close>

text \<open>
  \<^verbatim>\<open>String.prototype.slice\<close>: a negative index counts from the end, both indices are
  clamped to the string, and an empty range gives the empty string. The names are taken
  to be ASCII, one character a code unit.
\<close>

definition slice :: "string \<Rightarrow> int \<Rightarrow> int \<Rightarrow> string" where
  "slice s start end =
     (let len = int (length s);
          from = (if start < 0 then max (len + start) 0 else min start len);
          to = (if end < 0 then max (len + end) 0 else min end len)
      in take (nat (to - from)) (drop (nat from) s))"

text \<open>The document handed to the exporter (lines 441-445).\<close>

definition exportJson_inJson :: "('w, 'u) Database \<Rightarrow> string \<Rightarrow> jsonSQLite" where
  "exportJson_inJson d md =
     \<lparr>json_database = slice (dbName d) 0 (- 9),
      json_version = version d,
      json_encrypted = False,
      json_mode = md,
      json_tables = None\<rparr>"

definition exportJson ::
  "('w, 'u) collaborators \<Rightarrow> string \<Rightarrow> ('w, 'u) Database \<Rightarrow> jsonSQLite option promise \<times> ('w, 'u) Database" where
  "exportJson c md d =
     (let inJson = exportJson_inJson d md in
      async None
        (if isDBOpen d
         then
           try_catch
             (andThen
                (await (CreateExportObject inJson) (\<lambda>doc. Void)
                   (eTJson_createExportObject c (mDB d) inJson))
                (\<lambda>retJson.
                   if uJson_isJsonSQLite c retJson then return_stmt (Resolved (Some retJson))
                   else return_stmt (Rejected ''ExportJson: retJson not valid'')))
             (\<lambda>err. return_stmt (Rejected (''ExportJson: '' @ err)))
         else return_stmt (Rejected ''ExportJson: database is closed''))
        d)"

section \<open>A world of database files\<close>

text \<open>
  The file system maps a file name to the content of the database stored there. Of a
  database only the schema version and the names of its tables are kept.
\<close>

record content =
  user_version :: int
  tables :: "string list"

type_synonym fs = "string \<rightharpoonup> content"

text \<open>
  The statement sequence of one upgrade step: it may fail, and then gives the message
  and the content as the failed statements left it.
\<close>

type_synonym step = "content \<Rightarrow> msg option \<times> content"

type_synonym upgDict = "(int \<times> step) list"

fun apply_steps :: "upgDict \<Rightarrow> content \<Rightarrow> msg option \<times> content" where
  "apply_steps [] ct = (None, ct)"
| "apply_steps ((k, st) # rest) ct =
     (case st ct of
        (Some e, ct') \<Rightarrow> (Some e, ct')
      | (None, ct') \<Rightarrow> apply_steps rest ct')"

definition applicable :: "upgDict \<Rightarrow> int \<Rightarrow> int \<Rightarrow> upgDict" where
  "applicable dict cur target = sort_key fst (filter (\<lambda>(k, st). cur < k \<and> k \<le> target) dict)"

text \<open>
  Modelled from the spec: \<^verbatim>\<open>UtilsUpgrade.onUpgrade\<close> is missing. Section 4.2: the
  snapshot is a copy named with the fixed \<^verbatim>\<open>backup-\<close> prefix and is complete before the
  engine begins. Section 4.3: the steps with \<open>storedVersion < k \<le> config.version\<close> are
  applied in ascending order, a failure at any step is signalled upward, and on success
  the stored schema version becomes \<open>config.version\<close>.
\<close>

definition spec_onUpgrade :: "conn option \<Rightarrow> upgDict \<Rightarrow> string \<Rightarrow> int \<Rightarrow> int \<Rightarrow> (unit, fs) ext" where
  "spec_onUpgrade h dict name cur target w =
     (case w name of
        None \<Rightarrow> (Inl (''onUpgrade: no database '' @ name), w)
      | Some ct \<Rightarrow>
          (let w1 = w(''backup-'' @ name \<mapsto> ct) in
           case apply_steps (applicable dict cur target) ct of
             (Some e, ct') \<Rightarrow> (Inl e, w1(name \<mapsto> ct'))
           | (None, ct') \<Rightarrow> (Inr (), w1(name \<mapsto> ct'\<lparr>user_version := target\<rparr>))))"

text \<open>
  The file operations can fail for reasons outside the model (a locked file, a full
  disk): \<open>faults\<close> says which of them fails, and with what message.
\<close>

record faults =
  delete_fault :: "msg option"
  restore_fault :: "msg option"

definition no_faults :: faults where
  "no_faults = \<lparr>delete_fault = None, restore_fault = None\<rparr>"

text \<open>
  Modelled from the spec: \<^verbatim>\<open>UtilsFile.restoreFileName\<close> is missing. Section 4.2: restore
  copies the snapshot back over the live database file.
\<close>

definition spec_restoreFileName :: "faults \<Rightarrow> string \<Rightarrow> string \<Rightarrow> (unit, fs) ext" where
  "spec_restoreFileName fl name prefix w =
     (case restore_fault fl of
        Some e \<Rightarrow> (Inl e, w)
      | None \<Rightarrow>
          (case w (prefix @ ''-'' @ name) of
             None \<Rightarrow> (Inl (''Restore: no file '' @ prefix @ ''-'' @ name), w)
           | Some ct \<Rightarrow> (Inr (), w(name \<mapsto> ct))))"

text \<open>
  Modelled from the spec: \<^verbatim>\<open>UtilsFile.deleteFileName\<close> is missing. Section 4.2: discard
  deletes the snapshot.
\<close>

definition spec_deleteFileName :: "faults \<Rightarrow> string \<Rightarrow> (unit, fs) ext" where
  "spec_deleteFileName fl name w =
     (case delete_fault fl of
        Some e \<Rightarrow> (Inl e, w)
      | None \<Rightarrow> (Inr (), w(name := None)))"

text \<open>
  Modelled from the spec: the engine driver of section 6 is missing.
  \<^verbatim>\<open>openOrCreateDatabase\<close> gives a connection to the file, created empty when absent;
  \<^verbatim>\<open>getVersion\<close> reads the stored schema version; \<^verbatim>\<open>isTableExists\<close> looks the table up.
\<close>

definition spec_openOrCreateDatabase :: "string \<Rightarrow> string \<Rightarrow> (conn, fs) ext" where
  "spec_openOrCreateDatabase path password w =
     (case w path of
        None \<Rightarrow> (Inr path, w(path \<mapsto> \<lparr>user_version = 0, tables = []\<rparr>))
      | Some ct \<Rightarrow> (Inr path, w))"

definition spec_getVersion :: "conn option \<Rightarrow> (int, fs) ext" where
  "spec_getVersion h w =
     (case h of
        None \<Rightarrow> (Inl ''GetVersion: no connection'', w)
      | Some path \<Rightarrow>
          (case w path of
             None \<Rightarrow> (Inl ''GetVersion: no database'', w)
           | Some ct \<Rightarrow> (Inr (user_version ct), w)))"

definition spec_isTableExists :: "conn option \<Rightarrow> bool \<Rightarrow> string \<Rightarrow> (bool, fs) ext" where
  "spec_isTableExists h isOpen tableName w =
     (case h of
        None \<Rightarrow> (Inl ''isTableExists: no connection'', w)
      | Some path \<Rightarrow>
          (case w path of
             None \<Rightarrow> (Inl ''isTableExists: no database'', w)
           | Some ct \<Rightarrow> (Inr (tableName \<in> set (tables ct)), w)))"

text \<open>
  What the database holds once \<^verbatim>\<open>open\<close> has its connection, and so when the upgrade flow
  is entered: the content of its file, or the empty database when the file was absent and
  \<^verbatim>\<open>openOrCreateDatabase\<close> has just created it.
\<close>

definition entry_content :: "fs \<Rightarrow> string \<Rightarrow> content" where
  "entry_content w name =
     (case w name of
        None \<Rightarrow> \<lparr>user_version = 0, tables = []\<rparr>
      | Some ct \<Rightarrow> ct)"

text \<open>
  The collaborators over this world. The path of a database is its name. What is not
  modelled above succeeds and changes nothing.
\<close>

definition succeed :: "'a \<Rightarrow> ('a, fs) ext" where
  "succeed x w = (Inr x, w)"

definition spec_collaborators :: "faults \<Rightarrow> (fs, upgDict) collaborators" where
  "spec_collaborators fl =
     \<lparr>uGlobal_secret = ''secret'',
      uGlobal_newsecret = ''newsecret'',
      uFile_getFilePath = (\<lambda>name. name),
      uFile_deleteFileName = spec_deleteFileName fl,
      uFile_restoreFileName = spec_restoreFileName fl,
      uEncrypt_encryptDatabase = (\<lambda>path password. succeed ()),
      uUpg_onUpgrade = spec_onUpgrade,
      uSQLite_changePassword = (\<lambda>path oPassword nPassword. succeed ()),
      uSQLite_openOrCreateDatabase = spec_openOrCreateDatabase,
      uSQLite_getVersion = spec_getVersion,
      uSQLite_beginTransaction = (\<lambda>h isOpen. succeed ()),
      uSQLite_commitTransaction = (\<lambda>h isOpen. succeed ()),
      uSQLite_rollbackTransaction = (\<lambda>h isOpen. succeed ()),
      uSQLite_execute = (\<lambda>h sql. succeed 0),
      uSQLite_executeSet = (\<lambda>h set. succeed (- 1)),
      uSQLite_dbChanges = (\<lambda>h. succeed 0),
      uSQLite_getLastId = (\<lambda>h. succeed (- 1)),
      uJson_isTableExists = spec_isTableExists,
      uJson_isJsonSQLite = (\<lambda>doc. True),
      iFJson_createDatabaseSchema = (\<lambda>h doc. succeed 0),
      iFJson_createTablesData = (\<lambda>h doc. succeed 0),
      eTJson_createExportObject = (\<lambda>h doc. succeed doc),
      mDB_close = (\<lambda>h. succeed ()),
      mDB_run = (\<lambda>h statement values. succeed ())\<rparr>"

section \<open>Stating properties of runs\<close>

text \<open>The calls logged between two states of the same object.\<close>

definition events_of :: "('w, 'u) Database \<Rightarrow> ('w, 'u) Database \<Rightarrow> event list" where
  "events_of d d' = drop (length (calls d)) (calls d')"

fun is_onUpgrade :: "event \<Rightarrow> bool" where
  "is_onUpgrade (OnUpgrade cur target, out) = True"
| "is_onUpgrade ev = False"

fun is_deleteFileName :: "event \<Rightarrow> bool" where
  "is_deleteFileName (DeleteFileName name, out) = True"
| "is_deleteFileName ev = False"

fun is_restoreFileName :: "event \<Rightarrow> bool" where
  "is_restoreFileName (RestoreFileName name prefix, out) = True"
| "is_restoreFileName ev = False"

fun flow_failed :: "event \<Rightarrow> bool" where
  "flow_failed (OnUpgrade cur target, Threw e) = True"
| "flow_failed (DeleteFileName name, Threw e) = True"
| "flow_failed ev = False"

fun upgrade_succeeded :: "event \<Rightarrow> bool" where
  "upgrade_succeeded (OnUpgrade cur target, Gave v) = True"
| "upgrade_succeeded ev = False"

fun version_read :: "event \<Rightarrow> bool" where
  "version_read (GetVersion, Gave (Num cur)) = True"
| "version_read ev = False"

fun schema_succeeded :: "event \<Rightarrow> bool" where
  "schema_succeeded (CreateDatabaseSchema, Gave (Num n)) = (n \<noteq> - 1)"
| "schema_succeeded ev = False"

text \<open>
  \<open>each_preceded P Q prev evs\<close>: every event of \<open>evs\<close> that satisfies \<open>P\<close> comes
  right after an event that satisfies \<open>Q\<close>; \<open>prev\<close> is the event before the list, if any.
\<close>

fun each_preceded :: "(event \<Rightarrow> bool) \<Rightarrow> (event \<Rightarrow> bool) \<Rightarrow> event option \<Rightarrow> event list \<Rightarrow> bool" where
  "each_preceded P Q prev [] = True"
| "each_preceded P Q prev (ev # evs) =
     ((if P ev then (case prev of None \<Rightarrow> False | Some p \<Rightarrow> Q p) else True) \<and>
      each_preceded P Q (Some ev) evs)"

section \<open>Concrete inputs\<close>

definition add_table :: "string \<Rightarrow> step" where
  "add_table t ct = (None, ct\<lparr>tables := tables ct @ [t]\<rparr>)"

definition failing_step :: step where
  "failing_step ct = (Some ''no such table: orders'', ct\<lparr>tables := tables ct @ [''partial'']\<rparr>)"

text \<open>A closed database at schema version 0, to be opened at version 2.\<close>

definition app_db :: "upgDict \<Rightarrow> (fs, upgDict) Database" where
  "app_db dict =
     \<lparr>isDBOpen = False, dbName = ''appSQLite.db'', encrypted = False, mode = ''no-encryption'',
      version = 2, pathDB = ''appSQLite.db'', mDB = None, vUpgDict = dict,
      world = [''appSQLite.db'' \<mapsto> \<lparr>user_version = 0, tables = [''users'']\<rparr>],
      calls = []\<rparr>"

text \<open>An open database at its target version, which has its sync table.\<close>

definition opened_db :: "(fs, upgDict) Database" where
  "opened_db =
     \<lparr>isDBOpen = True, dbName = ''appSQLite.db'', encrypted = False, mode = ''no-encryption'',
      version = 2, pathDB = ''appSQLite.db'', mDB = Some ''appSQLite.db'', vUpgDict = [],
      world = [''appSQLite.db'' \<mapsto> \<lparr>user_version = 2, tables = [''users'', ''sync_table'']\<rparr>],
      calls = []\<rparr>"

definition app_json :: jsonSQLite where
  "app_json =
     \<lparr>json_database = ''app'', json_version = 2, json_encrypted = False, json_mode = ''full'',
      json_tables = Some [''users'']\<rparr>"

definition failing :: "msg \<Rightarrow> ('a, fs) ext" where
  "failing e w = (Inl e, w)"

section \<open>Running the control flow\<close>

lemma await_run:
  "await k shw f d =
     (case f (world d) of
        (Inl e, w') \<Rightarrow> (Throw e, d\<lparr>world := w', calls := calls d @ [(k, Threw e)]\<rparr>)
      | (Inr x, w') \<Rightarrow> (Next x, d\<lparr>world := w', calls := calls d @ [(k, Gave (shw x))]\<rparr>))"
  by (simp add: await_def invoke_def split: prod.splits sum.splits)

lemmas ctl_defs = andThen_def try_catch_def assign_def next_stmt_def return_stmt_def

lemmas spec_defs = spec_collaborators_def spec_onUpgrade_def spec_restoreFileName_def
  spec_deleteFileName_def spec_openOrCreateDatabase_def spec_getVersion_def
  spec_isTableExists_def succeed_def failing_def no_faults_def applicable_def

lemmas input_defs = app_db_def opened_db_def add_table_def failing_step_def app_json_def

lemmas open_defs = open_db_def open_try_def open_connect_def open_upgrade_def close_def
  close_callback_def async_def ctl_defs await_run invoke_def void_def events_of_def

section \<open>close\<close>

lemma close_resolves: "fst (close c d) = Resolved ()"
  by (simp add: close_def close_callback_def async_def ctl_defs invoke_def
      split: prod.splits sum.splits)

lemma close_noop: "mDB d = None \<or> \<not> isDBOpen d \<Longrightarrow> close c d = (Resolved (), d)"
  by (auto simp: close_def async_def ctl_defs)

text \<open>
  C9. \<^verbatim>\<open>close()\<close> on an open database whose connection cannot be released: the driver
  hands the error to the callback, which makes a rejected promise that nobody receives.
  \<^verbatim>\<open>close()\<close> itself resolves, and the database is still flagged open.
\<close>

theorem close_release_failure_resolves:
  "close ((spec_collaborators no_faults)\<lparr>mDB_close := (\<lambda>h. failing ''SQLITE_BUSY'')\<rparr>) opened_db =
     (Resolved (), opened_db\<lparr>calls := [(MDBClose, Threw ''SQLITE_BUSY'')]\<rparr>) \<and>
   fst (close_callback (Some ''SQLITE_BUSY'') opened_db) =
     Return (Rejected ''Close: Failed in closing: appSQLite.db  SQLITE_BUSY'')"
  by (simp add: close_def close_callback_def async_def ctl_defs invoke_def spec_defs input_defs)

section \<open>The transactional primitives\<close>

text \<open>
  Whatever the statement does, the promise of \<^verbatim>\<open>runSQL\<close> never carries a result; and
  once the statements of \<^verbatim>\<open>execSet\<close> have failed, its promise resolves with
  \<^verbatim>\<open>undefined\<close> unless the rollback fails too.
\<close>

lemma runSQL_never_gives_result: "fst (runSQL c statement values d) \<noteq> Resolved (Some res)"
proof -
  obtain r d' where run: "runSQL c statement values d = (r, d')"
    by (cases "runSQL c statement values d")
  then have "r \<noteq> Resolved (Some res)"
    by (auto simp: runSQL_def async_def ctl_defs await_run invoke_def
        split: prod.splits sum.splits if_splits option.splits)
  with run show ?thesis by simp
qed

lemma execSet_failure_settles:
  assumes "(ExecuteSet, Threw e) \<in> set (events_of d (snd (execSet c set' d)))"
  shows "fst (execSet c set' d) = Resolved None \<or>
         (\<exists>e'. fst (execSet c set' d) = Rejected (''ExecSet: '' @ e @ '': '' @ e'))"
proof -
  obtain r d' where run: "execSet c set' d = (r, d')"
    by (cases "execSet c set' d")
  with assms have "(ExecuteSet, Threw e) \<in> set (events_of d d')"
    by simp
  with run have "r = Resolved None \<or> (\<exists>e'. r = Rejected (''ExecSet: '' @ e @ '': '' @ e'))"
    by (auto simp: execSet_def async_def ctl_defs await_run void_def events_of_def
        split: prod.splits sum.splits if_splits)
  with run show ?thesis by simp
qed

text \<open>
  C4. Three runs on an open database. \<^verbatim>\<open>execSet\<close> whose statements fail and whose
  rollback succeeds resolves with \<^verbatim>\<open>undefined\<close>. \<^verbatim>\<open>runSQL\<close> whose statement fails
  resolves with \<^verbatim>\<open>undefined\<close> as well. \<^verbatim>\<open>executeSQL\<close> whose batch reports a negative
  count rejects, with the transaction neither rolled back nor committed.
\<close>

theorem transactional_failure_dropped:
  "(case execSet ((spec_collaborators no_faults)\<lparr>uSQLite_executeSet := (\<lambda>h s. failing ''UNIQUE constraint failed'')\<rparr>)
          [(''INSERT INTO users VALUES (?)'', [JNum 1])] opened_db of
      (r, d') \<Rightarrow> r = Resolved None \<and>
        calls d' = [(DbChanges, Gave (Num 0)), (BeginTransaction, Gave Void),
                    (ExecuteSet, Threw ''UNIQUE constraint failed''), (RollbackTransaction, Gave Void)]) \<and>
   (case runSQL ((spec_collaborators no_faults)\<lparr>mDB_run := (\<lambda>h s v. failing ''UNIQUE constraint failed'')\<rparr>)
          ''INSERT INTO users VALUES (?)'' [JNum 1] opened_db of
      (r, d') \<Rightarrow> r = Resolved None \<and>
        calls d' = [(DbChanges, Gave (Num 0)), (BeginTransaction, Gave Void),
                    (MDBRun ''INSERT INTO users VALUES (?)'', Threw ''UNIQUE constraint failed''),
                    (RollbackTransaction, Gave Void)]) \<and>
   (case executeSQL ((spec_collaborators no_faults)\<lparr>uSQLite_execute := (\<lambda>h s. succeed (- 1))\<rparr>)
          ''DELETE FROM users;'' opened_db of
      (r, d') \<Rightarrow> r = Rejected ''ExecuteSQL: changes < 0'' \<and>
        calls d' = [(BeginTransaction, Gave Void), (Execute ''DELETE FROM users;'', Gave (Num (- 1)))])"
  by (simp add: execSet_def runSQL_def runSQL_callback_def executeSQL_def not_opened_def async_def
      ctl_defs await_run invoke_def void_def spec_defs input_defs)

section \<open>createSyncTable\<close>

lemma createSyncTable_existing:
  assumes "isDBOpen d"
    and "uJson_isTableExists c (mDB d) True ''sync_table'' (world d) = (Inr True, w')"
  shows "fst (createSyncTable c now d) = Resolved (Some (- 1))"
  using assms by (simp add: createSyncTable_def async_def ctl_defs await_run)

text \<open>
  C8. \<^verbatim>\<open>createSyncTable()\<close> on an open database that already has its sync table, as
  after a first call: it resolves with \<open>-1\<close>, the value \<^verbatim>\<open>changes\<close> starts with, and
  executes no statement.
\<close>

theorem createSyncTable_second_call:
  "createSyncTable (spec_collaborators no_faults) 1700000000000 opened_db =
     (Resolved (Some (- 1)),
      opened_db\<lparr>calls := [(IsTableExists ''sync_table'', Gave (Flag True))]\<rparr>)"
  by (simp add: createSyncTable_def async_def ctl_defs await_run spec_defs input_defs)

section \<open>exportJson\<close>

lemma slice_drop_last: "0 < n \<Longrightarrow> slice s 0 (- int n) = take (length s - n) s"
proof -
  assume "0 < n"
  moreover have "nat (int (length s) - int n) = length s - n"
    by arith
  ultimately show ?thesis
    by (simp add: slice_def Let_def max_def)
qed

text \<open>
  C10. \<^verbatim>\<open>exportJson\<close> on an open database calls the exporter once, on the connection and
  the world as they are, with the document whose \<^verbatim>\<open>database\<close> is the name without its
  last nine characters, whose \<^verbatim>\<open>version\<close> is the target version, whose \<^verbatim>\<open>encrypted\<close> is
  false whatever the object's own flag, and whose \<^verbatim>\<open>mode\<close> is the argument. What the
  exporter gives back is the result when it is valid; an invalid document and a failed
  exporter are rejections. On a closed database nothing is called.
\<close>

theorem exportJson_header:
  "json_database (exportJson_inJson d md) = take (length (dbName d) - 9) (dbName d) \<and>
   json_database (exportJson_inJson d md) @ drop (length (dbName d) - 9) (dbName d) = dbName d \<and>
   json_version (exportJson_inJson d md) = version d \<and>
   json_encrypted (exportJson_inJson d md) = False \<and>
   json_mode (exportJson_inJson d md) = md \<and>
   map fst (events_of d (snd (exportJson c md d))) =
     (if isDBOpen d then [CreateExportObject (exportJson_inJson d md)] else []) \<and>
   (let hdr = \<lparr>json_database = take (length (dbName d) - 9) (dbName d),
               json_version = version d, json_encrypted = False, json_mode = md,
               json_tables = None\<rparr>
    in if isDBOpen d
       then (case eTJson_createExportObject c (mDB d) hdr (world d) of
               (Inl e, w') \<Rightarrow>
                 exportJson c md d =
                   (Rejected (''ExportJson: '' @ e),
                    d\<lparr>world := w', calls := calls d @ [(CreateExportObject hdr, Threw e)]\<rparr>)
             | (Inr retJson, w') \<Rightarrow>
                 exportJson c md d =
                   (if uJson_isJsonSQLite c retJson then Resolved (Some retJson)
                    else Rejected ''ExportJson: retJson not valid'',
                    d\<lparr>world := w', calls := calls d @ [(CreateExportObject hdr, Gave Void)]\<rparr>))
       else exportJson c md d = (Rejected ''ExportJson: database is closed'', d))"
proof -
  have cut: "slice (dbName d) 0 (- 9) = take (length (dbName d) - 9) (dbName d)"
    using slice_drop_last [of 9 "dbName d"] by simp
  then have hdr: "json_database (exportJson_inJson d md) = take (length (dbName d) - 9) (dbName d)"
    by (simp add: exportJson_inJson_def)
  have ev: "map fst (events_of d (snd (exportJson c md d))) =
     (if isDBOpen d then [CreateExportObject (exportJson_inJson d md)] else [])"
    by (simp add: exportJson_def Let_def async_def ctl_defs await_run events_of_def
        split: prod.splits sum.splits)
  have run: "(let hdr = \<lparr>json_database = take (length (dbName d) - 9) (dbName d),
               json_version = version d, json_encrypted = False, json_mode = md,
               json_tables = None\<rparr>
    in if isDBOpen d
       then (case eTJson_createExportObject c (mDB d) hdr (world d) of
               (Inl e, w') \<Rightarrow>
                 exportJson c md d =
                   (Rejected (''ExportJson: '' @ e),
                    d\<lparr>world := w', calls := calls d @ [(CreateExportObject hdr, Threw e)]\<rparr>)
             | (Inr retJson, w') \<Rightarrow>
                 exportJson c md d =
                   (if uJson_isJsonSQLite c retJson then Resolved (Some retJson)
                    else Rejected ''ExportJson: retJson not valid'',
                    d\<lparr>world := w', calls := calls d @ [(CreateExportObject hdr, Gave Void)]\<rparr>))
       else exportJson c md d = (Rejected ''ExportJson: database is closed'', d))"
    by (simp add: exportJson_def exportJson_inJson_def cut Let_def async_def ctl_defs await_run
        split: prod.splits sum.splits)
  show ?thesis
    using hdr ev run by (simp add: exportJson_inJson_def)
qed

theorem exportJson_header_witness:
  "encrypted (opened_db\<lparr>encrypted := True\<rparr>) \<and>
   exportJson (spec_collaborators no_faults) ''full'' (opened_db\<lparr>encrypted := True\<rparr>) =
     (Resolved (Some \<lparr>json_database = ''app'', json_version = 2, json_encrypted = False,
                      json_mode = ''full'', json_tables = None\<rparr>),
      opened_db\<lparr>encrypted := True,
        calls := [(CreateExportObject
                    \<lparr>json_database = ''app'', json_version = 2, json_encrypted = False,
                     json_mode = ''full'', json_tables = None\<rparr>, Gave Void)]\<rparr>)"
  using exportJson_header
    [where c = "spec_collaborators no_faults" and md = "''full''"
       and d = "opened_db\<lparr>encrypted := True\<rparr>"]
  by (simp add: spec_defs input_defs Let_def)

text \<open>An object constructed with \<^verbatim>\<open>encrypted = true\<close> exports a header that says false.\<close>

lemma exportJson_header_encrypted:
  "(case new_Database (spec_collaborators no_faults) ''appSQLite.db'' True ''secret'' 2 [] Map.empty of
      Inl e \<Rightarrow> False
    | Inr d \<Rightarrow>
        encrypted d \<and>
        exportJson_inJson d ''full'' =
          \<lparr>json_database = ''app'', json_version = 2, json_encrypted = False,
           json_mode = ''full'', json_tables = None\<rparr>)"
  by (simp add: new_Database_def exportJson_inJson_def slice_def Let_def spec_defs)

section \<open>open\<close>

lemma each_preceded_append:
  "each_preceded P Q prev (xs @ ys) =
     (each_preceded P Q prev xs \<and> each_preceded P Q (if xs = [] then prev else Some (last xs)) ys)"
  by (induction xs arbitrary: prev) auto

lemma each_preceded_none: "\<forall>ev \<in> set xs. \<not> P ev \<Longrightarrow> each_preceded P Q prev xs"
  by (induction xs arbitrary: prev) auto

lemma events_of_append:
  "calls d1 = calls d @ xs \<Longrightarrow> calls d2 = calls d1 @ ys \<Longrightarrow> events_of d d2 = xs @ ys"
  by (simp add: events_of_def)

text \<open>The five ways through the upgrade flow: the calls made, and how control leaves.\<close>

lemma open_upgrade_run:
  assumes "open_upgrade c cur d = (x, d')"
  shows "calls d' = calls d @ events_of d d' \<and> isDBOpen d' = isDBOpen d \<and>
    ((events_of d d' = [(OnUpgrade cur (version d), Gave Void),
                        (DeleteFileName (''backup-'' @ dbName d), Gave Void)]
        \<and> x = Next ()) \<or>
     (\<exists>e. events_of d d' = [(OnUpgrade cur (version d), Threw e),
                             (RestoreFileName (dbName d) ''backup'', Gave Void)]
        \<and> x = Next ()) \<or>
     (\<exists>e m. events_of d d' = [(OnUpgrade cur (version d), Threw e),
                               (RestoreFileName (dbName d) ''backup'', Threw m)]
        \<and> x = Return (Rejected (''Open: '' @ m))) \<or>
     (\<exists>e. events_of d d' = [(OnUpgrade cur (version d), Gave Void),
                             (DeleteFileName (''backup-'' @ dbName d), Threw e),
                             (RestoreFileName (dbName d) ''backup'', Gave Void)]
        \<and> x = Next ()) \<or>
     (\<exists>e m. events_of d d' = [(OnUpgrade cur (version d), Gave Void),
                               (DeleteFileName (''backup-'' @ dbName d), Threw e),
                               (RestoreFileName (dbName d) ''backup'', Threw m)]
        \<and> x = Return (Rejected (''Open: '' @ m))))"
  using assms
  by (auto simp: open_upgrade_def ctl_defs await_run void_def events_of_def
      split: prod.splits sum.splits)

text \<open>
  From the password to the version read: the version is read at most once, and the
  object is flagged open exactly when the read succeeded.
\<close>

lemma open_connect_run:
  assumes "open_connect c d = (x, d')"
  shows "calls d' = calls d @ events_of d d' \<and> dbName d' = dbName d \<and> version d' = version d \<and>
     (\<forall>ev \<in> set (events_of d d').
        \<not> is_onUpgrade ev \<and> \<not> is_deleteFileName ev \<and> \<not> is_restoreFileName ev) \<and>
     length (filter (\<lambda>ev. fst ev = GetVersion) (events_of d d')) \<le> 1 \<and>
     (case x of
        Next cur \<Rightarrow> isDBOpen d' \<and> last (events_of d d') = (GetVersion, Gave (Num cur)) \<and>
           events_of d d' \<noteq> [] \<and>
           length (filter (\<lambda>ev. fst ev = GetVersion) (events_of d d')) = 1 \<and>
           (\<forall>cur'. (GetVersion, Gave (Num cur')) \<in> set (events_of d d') \<longrightarrow> cur' = cur)
      | Throw e \<Rightarrow> isDBOpen d' = isDBOpen d \<and>
           (\<forall>cur. (GetVersion, Gave (Num cur)) \<notin> set (events_of d d'))
      | Return p \<Rightarrow> False)"
  using assms
  by (auto simp: open_connect_def Let_def ctl_defs await_run void_def events_of_def
      split: prod.splits sum.splits if_splits)

lemma open_connect_next:
  assumes "open_connect c d = (Next cur, d')"
  shows "isDBOpen d'" and "last (events_of d d') = (GetVersion, Gave (Num cur))"
    and "events_of d d' \<noteq> []"
    and "length (filter (\<lambda>ev. fst ev = GetVersion) (events_of d d')) = 1"
    and "\<forall>cur'. (GetVersion, Gave (Num cur')) \<in> set (events_of d d') \<longrightarrow> cur' = cur"
  using open_connect_run [OF assms] by simp_all

lemma open_connect_throw:
  assumes "open_connect c d = (Throw e, d')"
  shows "isDBOpen d' = isDBOpen d"
    and "\<forall>cur. (GetVersion, Gave (Num cur)) \<notin> set (events_of d d')"
  using open_connect_run [OF assms] by simp_all

lemma open_db_connect_failed:
  assumes "open_connect c (d\<lparr>isDBOpen := False\<rparr>) = (Throw e, d1)" and "\<not> isDBOpen d1"
  shows "open_db c d = (Rejected (''Open: '' @ e), d1)"
  using assms by (simp add: open_db_def open_try_def async_def ctl_defs)

lemma open_db_current:
  assumes "open_connect c (d\<lparr>isDBOpen := False\<rparr>) = (Next cur, d1)" and "\<not> cur < version d"
  shows "open_db c d = (Resolved (), d1)"
  using assms by (simp add: open_db_def open_try_def async_def ctl_defs)

lemma open_db_upgrade_next:
  assumes "open_connect c (d\<lparr>isDBOpen := False\<rparr>) = (Next cur, d1)" and "cur < version d"
    and "open_upgrade c cur d1 = (Next u, d2)"
  shows "open_db c d = (Resolved (), d2)"
  using assms by (simp add: open_db_def open_try_def async_def ctl_defs)

lemma open_db_upgrade_return:
  assumes "open_connect c (d\<lparr>isDBOpen := False\<rparr>) = (Next cur, d1)" and "cur < version d"
    and "open_upgrade c cur d1 = (Return p, d2)"
  shows "open_db c d = (p, d2)"
  using assms by (simp add: open_db_def open_try_def async_def ctl_defs)

text \<open>
  The runs of \<^verbatim>\<open>open\<close>: the connection or the version read fails; the stored version is
  current; or the upgrade flow is entered, after the calls \<open>pre\<close>, and makes the calls
  \<open>flow\<close>.
\<close>

lemma open_db_cases:
  assumes run: "open_db c d = (r, d')"
  obtains
    (connect_failed) e where
      "r = Rejected (''Open: '' @ e)" "\<not> isDBOpen d'"
      "\<forall>ev \<in> set (events_of d d').
         \<not> is_onUpgrade ev \<and> \<not> is_deleteFileName ev \<and> \<not> is_restoreFileName ev"
      "length (filter (\<lambda>ev. fst ev = GetVersion) (events_of d d')) \<le> 1"
      "\<forall>cur. (GetVersion, Gave (Num cur)) \<notin> set (events_of d d')"
  | (current) cur where
      "version d \<le> cur" "r = Resolved ()" "isDBOpen d'"
      "\<forall>ev \<in> set (events_of d d').
         \<not> is_onUpgrade ev \<and> \<not> is_deleteFileName ev \<and> \<not> is_restoreFileName ev"
      "length (filter (\<lambda>ev. fst ev = GetVersion) (events_of d d')) = 1"
      "\<forall>cur'. (GetVersion, Gave (Num cur')) \<in> set (events_of d d') \<longrightarrow> cur' = cur"
      "events_of d d' \<noteq> []" "last (events_of d d') = (GetVersion, Gave (Num cur))"
  | (upgrade) cur pre flow where
      "cur < version d" "events_of d d' = pre @ flow" "isDBOpen d'"
      "\<forall>ev \<in> set pre. \<not> is_onUpgrade ev \<and> \<not> is_deleteFileName ev \<and> \<not> is_restoreFileName ev"
      "length (filter (\<lambda>ev. fst ev = GetVersion) pre) = 1"
      "\<forall>cur'. (GetVersion, Gave (Num cur')) \<in> set pre \<longrightarrow> cur' = cur"
      "(flow = [(OnUpgrade cur (version d), Gave Void),
                (DeleteFileName (''backup-'' @ dbName d), Gave Void)]
          \<and> r = Resolved ()) \<or>
       (\<exists>e. flow = [(OnUpgrade cur (version d), Threw e),
                     (RestoreFileName (dbName d) ''backup'', Gave Void)]
          \<and> r = Resolved ()) \<or>
       (\<exists>e m. flow = [(OnUpgrade cur (version d), Threw e),
                       (RestoreFileName (dbName d) ''backup'', Threw m)]
          \<and> r = Rejected (''Open: '' @ m)) \<or>
       (\<exists>e. flow = [(OnUpgrade cur (version d), Gave Void),
                     (DeleteFileName (''backup-'' @ dbName d), Threw e),
                     (RestoreFileName (dbName d) ''backup'', Gave Void)]
          \<and> r = Resolved ()) \<or>
       (\<exists>e m. flow = [(OnUpgrade cur (version d), Gave Void),
                       (DeleteFileName (''backup-'' @ dbName d), Threw e),
                       (RestoreFileName (dbName d) ''backup'', Threw m)]
          \<and> r = Rejected (''Open: '' @ m))"
      "pre \<noteq> []" "last pre = (GetVersion, Gave (Num cur))"
proof -
  define d0 where "d0 = d\<lparr>isDBOpen := False\<rparr>"
  obtain x d1 where oc: "open_connect c d0 = (x, d1)"
    by (cases "open_connect c d0")
  have ev0: "events_of d d1 = events_of d0 d1" and cl0: "calls d0 = calls d"
    and nm0: "dbName d0 = dbName d" "version d0 = version d" "\<not> isDBOpen d0"
    by (simp_all add: events_of_def d0_def)
  note c1 = open_connect_run [OF oc]
  have quiet: "\<forall>ev \<in> set (events_of d d1).
      \<not> is_onUpgrade ev \<and> \<not> is_deleteFileName ev \<and> \<not> is_restoreFileName ev"
    and once: "length (filter (\<lambda>ev. fst ev = GetVersion) (events_of d d1)) \<le> 1"
    and names: "dbName d1 = dbName d" "version d1 = version d"
    and cl1: "calls d1 = calls d @ events_of d d1"
    using c1 ev0 cl0 nm0 by simp_all
  show thesis
  proof (cases x)
    case (Throw e)
    have closed: "\<not> isDBOpen d1"
      using open_connect_throw [OF oc [unfolded Throw]] nm0 by simp
    have unread: "\<forall>cur. (GetVersion, Gave (Num cur)) \<notin> set (events_of d d1)"
      using open_connect_throw [OF oc [unfolded Throw]] ev0 by simp
    have "open_db c d = (Rejected (''Open: '' @ e), d1)"
      using oc closed unfolding Throw d0_def by (rule open_db_connect_failed)
    with run have "r = Rejected (''Open: '' @ e)" and "d' = d1"
      by simp_all
    with closed quiet once unread show thesis
      by (intro connect_failed [of e]) simp_all
  next
    case (Return p)
    with c1 show thesis by simp
  next
    case (Next cur)
    note n1 = open_connect_next [OF oc [unfolded Next]]
    have opened: "isDBOpen d1"
      and one: "length (filter (\<lambda>ev. fst ev = GetVersion) (events_of d d1)) = 1"
      and same: "\<forall>cur'. (GetVersion, Gave (Num cur')) \<in> set (events_of d d1) \<longrightarrow> cur' = cur"
      and some: "events_of d d1 \<noteq> []"
      and final: "last (events_of d d1) = (GetVersion, Gave (Num cur))"
      using n1 ev0 by simp_all
    show thesis
    proof (cases "cur < version d")
      case False
      have "open_db c d = (Resolved (), d1)"
        using oc False unfolding Next d0_def by (rule open_db_current)
      with run have "r = Resolved ()" and "d' = d1"
        by simp_all
      with False opened quiet one same some final show thesis
        by (intro current [of cur]) simp_all
    next
      case True
      obtain y d2 where ou: "open_upgrade c cur d1 = (y, d2)"
        by (cases "open_upgrade c cur d1")
      note u1 = open_upgrade_run [OF ou]
      have cl2: "calls d2 = calls d1 @ events_of d1 d2" and opened2: "isDBOpen d2"
        using u1 opened by simp_all
      have split: "events_of d d2 = events_of d d1 @ events_of d1 d2"
        using cl1 cl2 by (rule events_of_append)
      have shapes:
        "(events_of d1 d2 = [(OnUpgrade cur (version d), Gave Void),
                  (DeleteFileName (''backup-'' @ dbName d), Gave Void)]
            \<and> y = Next ()) \<or>
         (\<exists>e. events_of d1 d2 = [(OnUpgrade cur (version d), Threw e),
                       (RestoreFileName (dbName d) ''backup'', Gave Void)]
            \<and> y = Next ()) \<or>
         (\<exists>e m. events_of d1 d2 = [(OnUpgrade cur (version d), Threw e),
                         (RestoreFileName (dbName d) ''backup'', Threw m)]
            \<and> y = Return (Rejected (''Open: '' @ m))) \<or>
         (\<exists>e. events_of d1 d2 = [(OnUpgrade cur (version d), Gave Void),
                       (DeleteFileName (''backup-'' @ dbName d), Threw e),
                       (RestoreFileName (dbName d) ''backup'', Gave Void)]
            \<and> y = Next ()) \<or>
         (\<exists>e m. events_of d1 d2 = [(OnUpgrade cur (version d), Gave Void),
                         (DeleteFileName (''backup-'' @ dbName d), Threw e),
                         (RestoreFileName (dbName d) ''backup'', Threw m)]
            \<and> y = Return (Rejected (''Open: '' @ m)))"
        using u1 unfolding names by (rule conjunct2 [OF conjunct2])
      have res: "open_db c d = ((case y of Next u \<Rightarrow> Resolved () | Return p \<Rightarrow> p), d2)"
      proof (cases y)
        case (Next u)
        show ?thesis
          using oc True ou unfolding \<open>x = Next cur\<close> Next d0_def
          by (simp add: open_db_upgrade_next)
      next
        case (Return p)
        show ?thesis
          using oc True ou unfolding \<open>x = Next cur\<close> Return d0_def
          by (simp add: open_db_upgrade_return)
      next
        case (Throw e)
        with shapes show ?thesis by simp
      qed
      with run have r: "r = (case y of Next u \<Rightarrow> Resolved () | Return p \<Rightarrow> p)" and d': "d' = d2"
        by simp_all
      have flow:
        "(events_of d1 d2 = [(OnUpgrade cur (version d), Gave Void),
                  (DeleteFileName (''backup-'' @ dbName d), Gave Void)]
            \<and> r = Resolved ()) \<or>
         (\<exists>e. events_of d1 d2 = [(OnUpgrade cur (version d), Threw e),
                       (RestoreFileName (dbName d) ''backup'', Gave Void)]
            \<and> r = Resolved ()) \<or>
         (\<exists>e m. events_of d1 d2 = [(OnUpgrade cur (version d), Threw e),
                         (RestoreFileName (dbName d) ''backup'', Threw m)]
            \<and> r = Rejected (''Open: '' @ m)) \<or>
         (\<exists>e. events_of d1 d2 = [(OnUpgrade cur (version d), Gave Void),
                       (DeleteFileName (''backup-'' @ dbName d), Threw e),
                       (RestoreFileName (dbName d) ''backup'', Gave Void)]
            \<and> r = Resolved ()) \<or>
         (\<exists>e m. events_of d1 d2 = [(OnUpgrade cur (version d), Gave Void),
                         (DeleteFileName (''backup-'' @ dbName d), Threw e),
                         (RestoreFileName (dbName d) ''backup'', Threw m)]
            \<and> r = Rejected (''Open: '' @ m))"
        using shapes unfolding r by (elim disjE exE conjE) simp_all
      have split': "events_of d d' = events_of d d1 @ events_of d1 d2" and opened': "isDBOpen d'"
        using split opened2 d' by simp_all
      show thesis
        using True split' opened' quiet one same flow some final
        by (rule upgrade [of cur "events_of d d1" "events_of d1 d2"])
    qed
  qed
qed

text \<open>
  The version read, followed through the collaborators: once the step that the mode
  asks for, the opening and the read have succeeded, \<^verbatim>\<open>open\<close> holds the connection and
  has the version that \<^verbatim>\<open>getVersion\<close> gave on that connection.
\<close>

lemma open_connect_reads:
  assumes "if mode d = ''newsecret''
           then uSQLite_changePassword c (pathDB d) (uGlobal_secret c) (uGlobal_newsecret c) (world d)
                  = (Inr (), w0)
           else if mode d = ''encryption''
           then uEncrypt_encryptDatabase c (pathDB d)
                  (if encrypted d then uGlobal_secret c else '''') (world d) = (Inr (), w0)
           else w0 = world d"
    and "uSQLite_openOrCreateDatabase c (pathDB d)
           (if mode d = ''newsecret'' then uGlobal_newsecret c
            else if encrypted d \<and> (mode d = ''secret'' \<or> mode d = ''encryption'')
            then uGlobal_secret c else '''') w0 = (Inr h, w1)"
    and "uSQLite_getVersion c (Some h) w1 = (Inr cur, w2)"
  shows "fst (open_connect c d) = Next cur" and "world (snd (open_connect c d)) = w2"
    and "mDB (snd (open_connect c d)) = Some h"
    and "vUpgDict (snd (open_connect c d)) = vUpgDict d"
    and "(OpenOrCreateDatabase, Gave (Handle h)) \<in> set (events_of d (snd (open_connect c d)))"
  using assms
  by (auto simp: open_connect_def Let_def ctl_defs await_run void_def events_of_def
      split: if_splits)

lemma open_upgrade_first:
  assumes "open_upgrade c cur d = (y, d2)"
  shows "(OnUpgrade cur (version d),
          case fst (uUpg_onUpgrade c (mDB d) (vUpgDict d) (dbName d) cur (version d) (world d)) of
            Inl e \<Rightarrow> Threw e
          | Inr u \<Rightarrow> Gave Void) \<in> set (events_of d d2)"
  using assms
  by (auto simp: open_upgrade_def ctl_defs await_run void_def events_of_def
      split: prod.splits sum.splits)

lemma open_db_reads_version:
  assumes step: "if mode d = ''newsecret''
           then uSQLite_changePassword c (pathDB d) (uGlobal_secret c) (uGlobal_newsecret c) (world d)
                  = (Inr (), w0)
           else if mode d = ''encryption''
           then uEncrypt_encryptDatabase c (pathDB d)
                  (if encrypted d then uGlobal_secret c else '''') (world d) = (Inr (), w0)
           else w0 = world d"
    and connected: "uSQLite_openOrCreateDatabase c (pathDB d)
           (if mode d = ''newsecret'' then uGlobal_newsecret c
            else if encrypted d \<and> (mode d = ''secret'' \<or> mode d = ''encryption'')
            then uGlobal_secret c else '''') w0 = (Inr h, w1)"
    and reading: "uSQLite_getVersion c (Some h) w1 = (Inr cur, w2)"
    and run: "open_db c d = (r, d')"
  shows "(GetVersion, Gave (Num cur)) \<in> set (events_of d d')"
    and "(OpenOrCreateDatabase, Gave (Handle h)) \<in> set (events_of d d')"
    and "version d \<le> cur \<Longrightarrow> world d' = w2 \<and> mDB d' = Some h"
    and "cur < version d \<Longrightarrow>
           (OnUpgrade cur (version d),
            case fst (uUpg_onUpgrade c (Some h) (vUpgDict d) (dbName d) cur (version d) w2) of
              Inl e \<Rightarrow> Threw e
            | Inr u \<Rightarrow> Gave Void) \<in> set (events_of d d')"
proof -
  define d0 where "d0 = d\<lparr>isDBOpen := False\<rparr>"
  obtain x d1 where oc: "open_connect c d0 = (x, d1)"
    by (cases "open_connect c d0")
  have eqs: "mode d0 = mode d" "pathDB d0 = pathDB d" "encrypted d0 = encrypted d"
    "world d0 = world d"
    by (simp_all add: d0_def)
  note p = open_connect_reads [where d = d0 and c = c, unfolded eqs, OF step connected reading]
  have x: "x = Next cur" and w: "world d1 = w2" and m: "mDB d1 = Some h"
    and u: "vUpgDict d1 = vUpgDict d"
    and opened: "(OpenOrCreateDatabase, Gave (Handle h)) \<in> set (events_of d d1)"
    using p oc by (simp_all add: d0_def events_of_def)
  note n1 = open_connect_next [OF oc [unfolded x]]
  have was_read: "(GetVersion, Gave (Num cur)) \<in> set (events_of d d1)"
    using n1(2,3) last_in_set [of "events_of d0 d1"] by (simp add: d0_def events_of_def)
  note c1 = open_connect_run [OF oc]
  have names: "dbName d1 = dbName d" "version d1 = version d"
    and cl1: "calls d1 = calls d @ events_of d d1"
    using c1 by (simp_all add: d0_def events_of_def)
  show "(GetVersion, Gave (Num cur)) \<in> set (events_of d d')"
    and "(OpenOrCreateDatabase, Gave (Handle h)) \<in> set (events_of d d')"
    and "version d \<le> cur \<Longrightarrow> world d' = w2 \<and> mDB d' = Some h"
    and "cur < version d \<Longrightarrow>
           (OnUpgrade cur (version d),
            case fst (uUpg_onUpgrade c (Some h) (vUpgDict d) (dbName d) cur (version d) w2) of
              Inl e \<Rightarrow> Threw e
            | Inr u \<Rightarrow> Gave Void) \<in> set (events_of d d')"
  proof -
    have both: "(GetVersion, Gave (Num cur)) \<in> set (events_of d d') \<and>
        (OpenOrCreateDatabase, Gave (Handle h)) \<in> set (events_of d d') \<and>
        (version d \<le> cur \<longrightarrow> world d' = w2 \<and> mDB d' = Some h) \<and>
        (cur < version d \<longrightarrow>
           (OnUpgrade cur (version d),
            case fst (uUpg_onUpgrade c (Some h) (vUpgDict d) (dbName d) cur (version d) w2) of
              Inl e \<Rightarrow> Threw e
            | Inr u \<Rightarrow> Gave Void) \<in> set (events_of d d'))"
    proof (cases "cur < version d")
      case False
      have "open_db c d = (Resolved (), d1)"
        using oc False unfolding x d0_def by (rule open_db_current)
      with run have "d' = d1" by simp
      with False was_read opened w m show ?thesis by simp
    next
      case True
      obtain y d2 where ou: "open_upgrade c cur d1 = (y, d2)"
        by (cases "open_upgrade c cur d1")
      note u1 = open_upgrade_run [OF ou]
      have first: "(OnUpgrade cur (version d),
            case fst (uUpg_onUpgrade c (Some h) (vUpgDict d) (dbName d) cur (version d) w2) of
              Inl e \<Rightarrow> Threw e
            | Inr u \<Rightarrow> Gave Void) \<in> set (events_of d1 d2)"
        using open_upgrade_first [OF ou] names w m u by simp
      have cl2: "calls d2 = calls d1 @ events_of d1 d2"
        using u1 by simp
      have split: "events_of d d2 = events_of d d1 @ events_of d1 d2"
        using cl1 cl2 by (rule events_of_append)
      from u1 have y: "(\<exists>v. y = Next v) \<or> (\<exists>p. y = Return p)"
        by auto
      have "d' = d2"
      proof -
        from y show ?thesis
        proof
          assume "\<exists>v. y = Next v"
          then obtain v where "y = Next v" ..
          then have "open_db c d = (Resolved (), d2)"
            using oc True ou unfolding x d0_def by (simp add: open_db_upgrade_next)
          with run show ?thesis by simp
        next
          assume "\<exists>p. y = Return p"
          then obtain p where "y = Return p" ..
          then have "open_db c d = (p, d2)"
            using oc True ou unfolding x d0_def by (simp add: open_db_upgrade_return)
          with run show ?thesis by simp
        qed
      qed
      with True was_read opened first split show ?thesis by simp
    qed
    then show "(GetVersion, Gave (Num cur)) \<in> set (events_of d d')"
      and "(OpenOrCreateDatabase, Gave (Handle h)) \<in> set (events_of d d')"
      and "version d \<le> cur \<Longrightarrow> world d' = w2 \<and> mDB d' = Some h"
      and "cur < version d \<Longrightarrow>
           (OnUpgrade cur (version d),
            case fst (uUpg_onUpgrade c (Some h) (vUpgDict d) (dbName d) cur (version d) w2) of
              Inl e \<Rightarrow> Threw e
            | Inr u \<Rightarrow> Gave Void) \<in> set (events_of d d')"
      by simp_all
  qed
qed

text \<open>
  C6. \<^verbatim>\<open>open()\<close> reads the stored version at most once, and has read it whenever it
  resolves. \<^verbatim>\<open>onUpgrade\<close> is called only right after the read, from the version \<open>cur\<close>
  that was read to the target, and only when \<open>cur\<close> is below the target; once \<open>cur\<close> is
  read, it is called if and only if \<open>cur\<close> is below the target. No backup is deleted or
  restored unless \<^verbatim>\<open>onUpgrade\<close> was called. When the target is not above \<open>cur\<close>,
  \<^verbatim>\<open>open()\<close> resolves with the database flagged open and the version read is its last
  call. The version is the one \<^verbatim>\<open>getVersion\<close> gives on the connection just opened: when
  the step the mode asks for, the opening and the read succeed, that version is the one
  compared; if it is not below the target the world is left as the read left it, and if
  it is, \<^verbatim>\<open>onUpgrade\<close> is called on that connection and that world.
\<close>

theorem open_version_gate:
  "case open_db c d of (r, d') \<Rightarrow>
     length (filter (\<lambda>ev. fst ev = GetVersion) (events_of d d')) \<le> 1 \<and>
     (\<forall>cur. (GetVersion, Gave (Num cur)) \<in> set (events_of d d') \<longrightarrow>
        (list_ex is_onUpgrade (events_of d d') \<longleftrightarrow> cur < version d) \<and>
        (cur < version d \<longrightarrow> list_ex (\<lambda>ev. fst ev = OnUpgrade cur (version d)) (events_of d d')) \<and>
        (version d \<le> cur \<longrightarrow>
           r = Resolved () \<and> isDBOpen d' \<and>
           last (events_of d d') = (GetVersion, Gave (Num cur)) \<and>
           \<not> list_ex is_deleteFileName (events_of d d') \<and>
           \<not> list_ex is_restoreFileName (events_of d d'))) \<and>
     (r = Resolved () \<longrightarrow> list_ex version_read (events_of d d')) \<and>
     each_preceded is_onUpgrade version_read None (events_of d d') \<and>
     (\<forall>cur target out. (OnUpgrade cur target, out) \<in> set (events_of d d') \<longrightarrow>
        (GetVersion, Gave (Num cur)) \<in> set (events_of d d') \<and> target = version d \<and>
        cur < version d) \<and>
     (list_ex is_deleteFileName (events_of d d') \<or> list_ex is_restoreFileName (events_of d d') \<longrightarrow>
        list_ex is_onUpgrade (events_of d d')) \<and>
     (\<forall>w0 h w1 cur w2.
        (if mode d = ''newsecret''
         then uSQLite_changePassword c (pathDB d) (uGlobal_secret c) (uGlobal_newsecret c) (world d)
                = (Inr (), w0)
         else if mode d = ''encryption''
         then uEncrypt_encryptDatabase c (pathDB d)
                (if encrypted d then uGlobal_secret c else '''') (world d) = (Inr (), w0)
         else w0 = world d) \<and>
        uSQLite_openOrCreateDatabase c (pathDB d)
           (if mode d = ''newsecret'' then uGlobal_newsecret c
            else if encrypted d \<and> (mode d = ''secret'' \<or> mode d = ''encryption'')
            then uGlobal_secret c else '''') w0 = (Inr h, w1) \<and>
        uSQLite_getVersion c (Some h) w1 = (Inr cur, w2) \<longrightarrow>
        (GetVersion, Gave (Num cur)) \<in> set (events_of d d') \<and>
        (OpenOrCreateDatabase, Gave (Handle h)) \<in> set (events_of d d') \<and>
        (version d \<le> cur \<longrightarrow> world d' = w2 \<and> mDB d' = Some h) \<and>
        (cur < version d \<longrightarrow>
           (OnUpgrade cur (version d),
            case fst (uUpg_onUpgrade c (Some h) (vUpgDict d) (dbName d) cur (version d) w2) of
              Inl e \<Rightarrow> Threw e
            | Inr u \<Rightarrow> Gave Void) \<in> set (events_of d d')))"
proof -
  obtain r d' where run: "open_db c d = (r, d')"
    by (cases "open_db c d")
  from run have gate: "length (filter (\<lambda>ev. fst ev = GetVersion) (events_of d d')) \<le> 1 \<and>
     (\<forall>cur. (GetVersion, Gave (Num cur)) \<in> set (events_of d d') \<longrightarrow>
        (list_ex is_onUpgrade (events_of d d') \<longleftrightarrow> cur < version d) \<and>
        (cur < version d \<longrightarrow> list_ex (\<lambda>ev. fst ev = OnUpgrade cur (version d)) (events_of d d')) \<and>
        (version d \<le> cur \<longrightarrow>
           r = Resolved () \<and> isDBOpen d' \<and>
           last (events_of d d') = (GetVersion, Gave (Num cur)) \<and>
           \<not> list_ex is_deleteFileName (events_of d d') \<and>
           \<not> list_ex is_restoreFileName (events_of d d')))"
  proof (cases rule: open_db_cases)
    case (connect_failed e)
    then show ?thesis by simp
  next
    case (current cur)
    then show ?thesis by (auto simp: list_ex_iff)
  next
    case (upgrade cur pre flow)
    from upgrade(7) have flow:
      "filter (\<lambda>ev. fst ev = GetVersion) flow = []"
      "list_ex is_onUpgrade flow"
      "list_ex (\<lambda>ev. fst ev = OnUpgrade cur (version d)) flow"
      "\<forall>cur'. (GetVersion, Gave (Num cur')) \<notin> set flow"
      by auto
    have "\<forall>cur'. (GetVersion, Gave (Num cur')) \<in> set (events_of d d') \<longrightarrow> cur' = cur"
      using upgrade(2,6) flow(4) by auto
    moreover have "length (filter (\<lambda>ev. fst ev = GetVersion) (events_of d d')) \<le> 1"
      using upgrade(2,5) flow(1) by simp
    moreover have "list_ex is_onUpgrade (events_of d d')"
      and "list_ex (\<lambda>ev. fst ev = OnUpgrade cur (version d)) (events_of d d')"
      using upgrade(2) flow(2,3) by (auto simp: list_ex_iff)
    ultimately show ?thesis
      using upgrade(1) by auto
  qed
  from run have only: "(r = Resolved () \<longrightarrow> list_ex version_read (events_of d d')) \<and>
     each_preceded is_onUpgrade version_read None (events_of d d') \<and>
     (\<forall>cur target out. (OnUpgrade cur target, out) \<in> set (events_of d d') \<longrightarrow>
        (GetVersion, Gave (Num cur)) \<in> set (events_of d d') \<and> target = version d \<and>
        cur < version d) \<and>
     (list_ex is_deleteFileName (events_of d d') \<or> list_ex is_restoreFileName (events_of d d') \<longrightarrow>
        list_ex is_onUpgrade (events_of d d'))"
  proof (cases rule: open_db_cases)
    case (connect_failed e)
    have "\<forall>cur target out. (OnUpgrade cur target, out) \<notin> set (events_of d d')"
      using connect_failed(3) by auto
    with connect_failed show ?thesis
      by (auto simp: list_ex_iff intro: each_preceded_none)
  next
    case (current cur)
    have "\<forall>cur target out. (OnUpgrade cur target, out) \<notin> set (events_of d d')"
      using current(4) by auto
    moreover have "version_read (last (events_of d d'))" and "last (events_of d d') \<in> set (events_of d d')"
      using current(7,8) last_in_set [of "events_of d d'"] by simp_all
    ultimately show ?thesis
      using current(4) by (auto simp: list_ex_iff intro: each_preceded_none)
  next
    case (upgrade cur pre flow)
    have member: "(GetVersion, Gave (Num cur)) \<in> set pre"
      using upgrade(8,9) last_in_set [of pre] by simp
    moreover have "version_read (GetVersion, Gave (Num cur))"
      by simp
    ultimately have was_read: "list_ex version_read (events_of d d')"
      unfolding upgrade(2) list_ex_iff by (metis UnI1 set_append)
    have absent: "\<forall>cur' target out. (OnUpgrade cur' target, out) \<notin> set pre"
      using upgrade(4) by auto
    have quiet: "\<forall>ev \<in> set pre. \<not> is_onUpgrade ev"
      using upgrade(4) by simp
    then have before: "each_preceded is_onUpgrade version_read None pre"
      by (rule each_preceded_none)
    from upgrade(7) have flow:
      "each_preceded is_onUpgrade version_read (Some (GetVersion, Gave (Num cur))) flow"
      "\<forall>cur' target out. (OnUpgrade cur' target, out) \<in> set flow \<longrightarrow>
          cur' = cur \<and> target = version d"
      "list_ex is_onUpgrade flow"
      by auto
    have "each_preceded is_onUpgrade version_read None (events_of d d')"
      unfolding upgrade(2) using before flow(1) upgrade(8,9)
      by (simp add: each_preceded_append)
    moreover have "\<forall>cur' target out. (OnUpgrade cur' target, out) \<in> set (events_of d d') \<longrightarrow>
        (GetVersion, Gave (Num cur')) \<in> set (events_of d d') \<and> target = version d \<and>
        cur' < version d"
      unfolding upgrade(2)
    proof (intro allI impI)
      fix cur' target out
      assume "(OnUpgrade cur' target, out) \<in> set (pre @ flow)"
      with absent have "(OnUpgrade cur' target, out) \<in> set flow"
        by auto
      with flow(2) have "cur' = cur \<and> target = version d"
        by blast
      with member upgrade(1)
      show "(GetVersion, Gave (Num cur')) \<in> set (pre @ flow) \<and> target = version d \<and>
        cur' < version d"
        by simp
    qed
    moreover have "list_ex is_onUpgrade (events_of d d')"
      unfolding upgrade(2) using flow(3) by (auto simp: list_ex_iff)
    ultimately show ?thesis
      using was_read by blast
  qed
  have pinned: "\<forall>w0 h w1 cur w2.
        (if mode d = ''newsecret''
         then uSQLite_changePassword c (pathDB d) (uGlobal_secret c) (uGlobal_newsecret c) (world d)
                = (Inr (), w0)
         else if mode d = ''encryption''
         then uEncrypt_encryptDatabase c (pathDB d)
                (if encrypted d then uGlobal_secret c else '''') (world d) = (Inr (), w0)
         else w0 = world d) \<and>
        uSQLite_openOrCreateDatabase c (pathDB d)
           (if mode d = ''newsecret'' then uGlobal_newsecret c
            else if encrypted d \<and> (mode d = ''secret'' \<or> mode d = ''encryption'')
            then uGlobal_secret c else '''') w0 = (Inr h, w1) \<and>
        uSQLite_getVersion c (Some h) w1 = (Inr cur, w2) \<longrightarrow>
        (GetVersion, Gave (Num cur)) \<in> set (events_of d d') \<and>
        (OpenOrCreateDatabase, Gave (Handle h)) \<in> set (events_of d d') \<and>
        (version d \<le> cur \<longrightarrow> world d' = w2 \<and> mDB d' = Some h) \<and>
        (cur < version d \<longrightarrow>
           (OnUpgrade cur (version d),
            case fst (uUpg_onUpgrade c (Some h) (vUpgDict d) (dbName d) cur (version d) w2) of
              Inl e \<Rightarrow> Threw e
            | Inr u \<Rightarrow> Gave Void) \<in> set (events_of d d'))"
    using open_db_reads_version [OF _ _ _ run] by blast
  show ?thesis
    unfolding run prod.case
    by (insert gate only pinned, elim conjE, intro conjI, assumption+)
qed

theorem open_version_gate_witness:
  "(GetVersion, Gave (Num 0)) \<in>
      set (events_of ((app_db [])\<lparr>version := 0\<rparr>)
             (snd (open_db (spec_collaborators no_faults) ((app_db [])\<lparr>version := 0\<rparr>)))) \<and>
   fst (open_db (spec_collaborators no_faults) ((app_db [])\<lparr>version := 0\<rparr>)) = Resolved () \<and>
   last (events_of ((app_db [])\<lparr>version := 0\<rparr>)
           (snd (open_db (spec_collaborators no_faults) ((app_db [])\<lparr>version := 0\<rparr>)))) =
     (GetVersion, Gave (Num 0)) \<and>
   (GetVersion, Gave (Num 0)) \<in>
      set (events_of (app_db [(1, add_table ''orders'')])
             (snd (open_db (spec_collaborators no_faults) (app_db [(1, add_table ''orders'')])))) \<and>
   list_ex (\<lambda>ev. fst ev = OnUpgrade 0 2)
     (events_of (app_db [(1, add_table ''orders'')])
        (snd (open_db (spec_collaborators no_faults) (app_db [(1, add_table ''orders'')])))) \<and>
   spec_getVersion (Some ''appSQLite.db'') (world opened_db) = (Inr 2, world opened_db) \<and>
   open_db (spec_collaborators no_faults) (opened_db\<lparr>version := 1, mode := ''newsecret''\<rparr>) =
     (Resolved (),
      opened_db\<lparr>version := 1, mode := ''newsecret'',
        calls := [(ChangePassword, Gave Void),
                  (OpenOrCreateDatabase, Gave (Handle ''appSQLite.db'')),
                  (GetVersion, Gave (Num 2))]\<rparr>) \<and>
   events_of (opened_db\<lparr>version := 7, vUpgDict := [(7, add_table ''orders'')]\<rparr>)
     (snd (open_db (spec_collaborators no_faults)
             (opened_db\<lparr>version := 7, vUpgDict := [(7, add_table ''orders'')]\<rparr>))) =
     [(OpenOrCreateDatabase, Gave (Handle ''appSQLite.db'')),
      (GetVersion, Gave (Num 2)),
      (OnUpgrade 2 7, Gave Void),
      (DeleteFileName ''backup-appSQLite.db'', Gave Void)]"
  using open_version_gate [where c = "spec_collaborators no_faults" and d = "(app_db [])\<lparr>version := 0\<rparr>"]
    open_version_gate [where c = "spec_collaborators no_faults" and d = "app_db [(1, add_table ''orders'')]"]
    open_version_gate [where c = "spec_collaborators no_faults"
      and d = "opened_db\<lparr>version := 1, mode := ''newsecret''\<rparr>"]
    open_version_gate [where c = "spec_collaborators no_faults"
      and d = "opened_db\<lparr>version := 7, vUpgDict := [(7, add_table ''orders'')]\<rparr>"]
  by (simp add: open_defs spec_defs input_defs)

text \<open>
  C2 as stated fails: the upgrade succeeds, the deletion of the backup fails, and
  \<^verbatim>\<open>restoreFileName\<close> is called.
\<close>

theorem restore_after_successful_upgrade:
  "calls (snd (open_db (spec_collaborators (no_faults\<lparr>delete_fault := Some ''EBUSY''\<rparr>))
                 (app_db [(1, add_table ''orders'')]))) =
     [(OpenOrCreateDatabase, Gave (Handle ''appSQLite.db'')),
      (GetVersion, Gave (Num 0)),
      (OnUpgrade 0 2, Gave Void),
      (DeleteFileName ''backup-appSQLite.db'', Threw ''EBUSY''),
      (RestoreFileName ''appSQLite.db'' ''backup'', Gave Void)]"
  by (simp add: open_defs spec_defs input_defs)

text \<open>
  C2, as amended. In the calls of \<^verbatim>\<open>open()\<close>, every \<^verbatim>\<open>restoreFileName\<close> comes right
  after a call of the upgrade flow that failed, \<^verbatim>\<open>onUpgrade\<close> or \<^verbatim>\<open>deleteFileName\<close>; and
  when the restore fails with message \<open>m\<close>, \<^verbatim>\<open>open()\<close> rejects with \<^verbatim>\<open>Open: m\<close>.
\<close>

theorem open_restore_after_flow_failure:
  "case open_db c d of (r, d') \<Rightarrow>
     each_preceded is_restoreFileName flow_failed None (events_of d d') \<and>
     (\<forall>m. (RestoreFileName (dbName d) ''backup'', Threw m) \<in> set (events_of d d') \<longrightarrow>
        r = Rejected (''Open: '' @ m))"
proof -
  obtain r d' where run: "open_db c d = (r, d')"
    by (cases "open_db c d")
  from run have "each_preceded is_restoreFileName flow_failed None (events_of d d') \<and>
     (\<forall>m. (RestoreFileName (dbName d) ''backup'', Threw m) \<in> set (events_of d d') \<longrightarrow>
        r = Rejected (''Open: '' @ m))"
  proof (cases rule: open_db_cases)
    case (connect_failed e)
    then show ?thesis by (auto intro: each_preceded_none)
  next
    case (current cur)
    then show ?thesis by (auto intro: each_preceded_none)
  next
    case (upgrade cur pre flow)
    have quiet: "\<forall>ev \<in> set pre. \<not> is_restoreFileName ev"
      using upgrade(4) by simp
    then have pre: "each_preceded is_restoreFileName flow_failed None pre"
      by (rule each_preceded_none)
    have unrestored: "\<forall>m. (RestoreFileName (dbName d) ''backup'', Threw m) \<notin> set pre"
      using quiet by auto
    from upgrade(7) have
      "each_preceded is_restoreFileName flow_failed (if pre = [] then None else Some (last pre)) flow \<and>
       (\<forall>m. (RestoreFileName (dbName d) ''backup'', Threw m) \<in> set flow \<longrightarrow>
          r = Rejected (''Open: '' @ m))"
      by (elim disjE exE conjE) simp_all
    with pre unrestored show ?thesis
      unfolding upgrade(2) by (auto simp: each_preceded_append)
  qed
  with run show ?thesis by simp
qed

theorem open_restore_after_flow_failure_witness:
  "(RestoreFileName ''appSQLite.db'' ''backup'', Threw ''EIO'') \<in>
      set (events_of (app_db [(1, failing_step)])
             (snd (open_db (spec_collaborators (no_faults\<lparr>restore_fault := Some ''EIO''\<rparr>))
                     (app_db [(1, failing_step)])))) \<and>
   fst (open_db (spec_collaborators (no_faults\<lparr>restore_fault := Some ''EIO''\<rparr>))
          (app_db [(1, failing_step)])) = Rejected ''Open: EIO'' \<and>
   each_preceded is_restoreFileName flow_failed None
     (events_of (app_db [(1, failing_step)])
        (snd (open_db (spec_collaborators (no_faults\<lparr>restore_fault := Some ''EIO''\<rparr>))
                (app_db [(1, failing_step)]))))"
  using open_restore_after_flow_failure
    [where c = "spec_collaborators (no_faults\<lparr>restore_fault := Some ''EIO''\<rparr>)" and d = "app_db [(1, failing_step)]"]
  by (simp add: open_defs spec_defs input_defs)

text \<open>
  C3 as stated fails: after a successful upgrade to version 2, the failed deletion of
  the backup makes \<^verbatim>\<open>open()\<close> restore the snapshot, and the database is back at version
  0 without the new table, with \<^verbatim>\<open>open()\<close> resolved; when the restore fails too,
  \<^verbatim>\<open>open()\<close> rejects.
\<close>

theorem discard_failure_restores_snapshot:
  "world (snd (open_db (spec_collaborators no_faults) (app_db [(1, add_table ''orders'')])))
      ''appSQLite.db'' = Some \<lparr>user_version = 2, tables = [''users'', ''orders'']\<rparr> \<and>
   world (snd (open_db (spec_collaborators (no_faults\<lparr>delete_fault := Some ''EBUSY''\<rparr>))
                 (app_db [(1, add_table ''orders'')])))
      ''appSQLite.db'' = Some \<lparr>user_version = 0, tables = [''users'']\<rparr> \<and>
   fst (open_db (spec_collaborators (no_faults\<lparr>delete_fault := Some ''EBUSY''\<rparr>))
          (app_db [(1, add_table ''orders'')])) = Resolved () \<and>
   fst (open_db (spec_collaborators \<lparr>delete_fault = Some ''EBUSY'', restore_fault = Some ''EIO''\<rparr>)
          (app_db [(1, add_table ''orders'')])) = Rejected ''Open: EIO''"
  by (simp add: open_defs spec_defs input_defs)

text \<open>
  C3, as amended. In the calls of \<^verbatim>\<open>open()\<close>, every \<^verbatim>\<open>deleteFileName\<close> comes right after
  an \<^verbatim>\<open>onUpgrade\<close> that succeeded. When the deletion fails, the last call of \<^verbatim>\<open>open()\<close>
  is the \<^verbatim>\<open>restoreFileName\<close> that follows it: \<^verbatim>\<open>open()\<close> resolves when that restore
  succeeds and rejects with the message of the restore when it fails.
\<close>

theorem open_discard_failure_restores:
  "case open_db c d of (r, d') \<Rightarrow>
     each_preceded is_deleteFileName upgrade_succeeded None (events_of d d') \<and>
     (\<forall>e. (DeleteFileName (''backup-'' @ dbName d), Threw e) \<in> set (events_of d d') \<longrightarrow>
        last (butlast (events_of d d')) = (DeleteFileName (''backup-'' @ dbName d), Threw e) \<and>
        fst (last (events_of d d')) = RestoreFileName (dbName d) ''backup'' \<and>
        r = (case snd (last (events_of d d')) of
               Gave v \<Rightarrow> Resolved ()
             | Threw m \<Rightarrow> Rejected (''Open: '' @ m)))"
proof -
  obtain r d' where run: "open_db c d = (r, d')"
    by (cases "open_db c d")
  from run have "each_preceded is_deleteFileName upgrade_succeeded None (events_of d d') \<and>
     (\<forall>e. (DeleteFileName (''backup-'' @ dbName d), Threw e) \<in> set (events_of d d') \<longrightarrow>
        last (butlast (events_of d d')) = (DeleteFileName (''backup-'' @ dbName d), Threw e) \<and>
        fst (last (events_of d d')) = RestoreFileName (dbName d) ''backup'' \<and>
        r = (case snd (last (events_of d d')) of
               Gave v \<Rightarrow> Resolved ()
             | Threw m \<Rightarrow> Rejected (''Open: '' @ m)))"
  proof (cases rule: open_db_cases)
    case (connect_failed e)
    then show ?thesis by (auto intro: each_preceded_none)
  next
    case (current cur)
    then show ?thesis by (auto intro: each_preceded_none)
  next
    case (upgrade cur pre flow)
    have quiet: "\<forall>ev \<in> set pre. \<not> is_deleteFileName ev"
      using upgrade(4) by simp
    then have pre: "each_preceded is_deleteFileName upgrade_succeeded None pre"
      by (rule each_preceded_none)
    have undeleted: "\<forall>e. (DeleteFileName (''backup-'' @ dbName d), Threw e) \<notin> set pre"
      using quiet by auto
    from upgrade(7) have
      "each_preceded is_deleteFileName upgrade_succeeded (if pre = [] then None else Some (last pre)) flow \<and>
       (\<forall>e. (DeleteFileName (''backup-'' @ dbName d), Threw e) \<in> set flow \<longrightarrow>
          last (butlast (pre @ flow)) = (DeleteFileName (''backup-'' @ dbName d), Threw e) \<and>
          fst (last (pre @ flow)) = RestoreFileName (dbName d) ''backup'' \<and>
          r = (case snd (last (pre @ flow)) of
                 Gave v \<Rightarrow> Resolved ()
               | Threw m \<Rightarrow> Rejected (''Open: '' @ m)))"
      by (elim disjE exE conjE) (simp_all add: butlast_append)
    with pre undeleted show ?thesis
      unfolding upgrade(2) by (auto simp: each_preceded_append)
  qed
  with run show ?thesis by simp
qed

theorem open_discard_failure_restores_witness:
  "(DeleteFileName ''backup-appSQLite.db'', Threw ''EBUSY'') \<in>
      set (events_of (app_db [(1, add_table ''orders'')])
             (snd (open_db (spec_collaborators (no_faults\<lparr>delete_fault := Some ''EBUSY''\<rparr>))
                     (app_db [(1, add_table ''orders'')])))) \<and>
   last (events_of (app_db [(1, add_table ''orders'')])
           (snd (open_db (spec_collaborators (no_faults\<lparr>delete_fault := Some ''EBUSY''\<rparr>))
                   (app_db [(1, add_table ''orders'')])))) =
     (RestoreFileName ''appSQLite.db'' ''backup'', Gave Void) \<and>
   fst (open_db (spec_collaborators (no_faults\<lparr>delete_fault := Some ''EBUSY''\<rparr>))
          (app_db [(1, add_table ''orders'')])) = Resolved ()"
  using open_discard_failure_restores
    [where c = "spec_collaborators (no_faults\<lparr>delete_fault := Some ''EBUSY''\<rparr>)" and d = "app_db [(1, add_table ''orders'')]"]
  by (simp add: open_defs spec_defs input_defs)

text \<open>
  C5. Two runs of \<^verbatim>\<open>open()\<close> that reject. An upgrade step fails and the restore fails:
  the rejection is returned from inside the outer \<^verbatim>\<open>try\<close> (line 110), the outer handler
  never runs, and the database is left flagged open with no call to close the connection.
  The version read fails: the connection is held in \<^verbatim>\<open>_mDB\<close>, but the flag is still
  false, so the handler does not call \<^verbatim>\<open>close()\<close>.
\<close>

theorem open_rejects_without_cleanup:
  "fst (open_db (spec_collaborators (no_faults\<lparr>restore_fault := Some ''EIO''\<rparr>))
          (app_db [(1, failing_step)])) = Rejected ''Open: EIO'' \<and>
   is_DBOpen (snd (open_db (spec_collaborators (no_faults\<lparr>restore_fault := Some ''EIO''\<rparr>))
                      (app_db [(1, failing_step)]))) = True \<and>
   calls (snd (open_db (spec_collaborators (no_faults\<lparr>restore_fault := Some ''EIO''\<rparr>))
                 (app_db [(1, failing_step)]))) =
     [(OpenOrCreateDatabase, Gave (Handle ''appSQLite.db'')),
      (GetVersion, Gave (Num 0)),
      (OnUpgrade 0 2, Threw ''no such table: orders''),
      (RestoreFileName ''appSQLite.db'' ''backup'', Threw ''EIO'')] \<and>
   fst (open_db ((spec_collaborators no_faults)\<lparr>uSQLite_getVersion := (\<lambda>h. failing ''SQLITE_NOTADB'')\<rparr>)
          (app_db [])) = Rejected ''Open: SQLITE_NOTADB'' \<and>
   mDB (snd (open_db ((spec_collaborators no_faults)\<lparr>uSQLite_getVersion := (\<lambda>h. failing ''SQLITE_NOTADB'')\<rparr>)
               (app_db []))) = Some ''appSQLite.db'' \<and>
   calls (snd (open_db ((spec_collaborators no_faults)\<lparr>uSQLite_getVersion := (\<lambda>h. failing ''SQLITE_NOTADB'')\<rparr>)
                 (app_db []))) =
     [(OpenOrCreateDatabase, Gave (Handle ''appSQLite.db'')),
      (GetVersion, Threw ''SQLITE_NOTADB'')]"
  by (simp add: open_defs spec_defs input_defs is_DBOpen_def)

section \<open>importJson\<close>

text \<open>
  C7. \<^verbatim>\<open>importJson\<close> on an open database runs the schema phase first. When it throws,
  the import rejects with the wrapped message; when it gives \<open>-1\<close>, the import resolves
  with \<open>-1\<close>, the value that stands for failure; in both cases \<^verbatim>\<open>createTablesData\<close> is
  not called and the world is as the schema phase left it. When the schema phase gives
  another count, \<^verbatim>\<open>createTablesData\<close> is called next, on the world the schema phase left,
  and the import resolves with its count or rejects with its wrapped message. In the
  calls, \<^verbatim>\<open>createTablesData\<close> comes only right after such a schema phase. On a closed
  database the import rejects and nothing is called.
\<close>

theorem importJson_two_phase:
  "case importJson c jsonData d of (r, d') \<Rightarrow>
     each_preceded (\<lambda>ev. fst ev = CreateTablesData) schema_succeeded None (events_of d d') \<and>
     (\<forall>e. (CreateDatabaseSchema, Threw e) \<in> set (events_of d d') \<longrightarrow>
        r = Rejected (''ImportJson: '' @ e) \<and>
        \<not> list_ex (\<lambda>ev. fst ev = CreateTablesData) (events_of d d')) \<and>
     ((CreateDatabaseSchema, Gave (Num (- 1))) \<in> set (events_of d d') \<longrightarrow>
        r = Resolved (Some (- 1)) \<and>
        \<not> list_ex (\<lambda>ev. fst ev = CreateTablesData) (events_of d d')) \<and>
     (\<forall>e w1. isDBOpen d \<and>
        iFJson_createDatabaseSchema c (mDB d) jsonData (world d) = (Inl e, w1) \<longrightarrow>
        r = Rejected (''ImportJson: '' @ e) \<and> world d' = w1 \<and>
        events_of d d' = [(CreateDatabaseSchema, Threw e)]) \<and>
     (\<forall>w1. isDBOpen d \<and>
        iFJson_createDatabaseSchema c (mDB d) jsonData (world d) = (Inr (- 1), w1) \<longrightarrow>
        r = Resolved (Some (- 1)) \<and> world d' = w1 \<and>
        events_of d d' = [(CreateDatabaseSchema, Gave (Num (- 1)))]) \<and>
     (\<forall>n w1 m w2. isDBOpen d \<and>
        iFJson_createDatabaseSchema c (mDB d) jsonData (world d) = (Inr n, w1) \<and> n \<noteq> - 1 \<and>
        iFJson_createTablesData c (mDB d) jsonData w1 = (Inr m, w2) \<longrightarrow>
        r = Resolved (Some m) \<and> world d' = w2 \<and>
        events_of d d' = [(CreateDatabaseSchema, Gave (Num n)), (CreateTablesData, Gave (Num m))]) \<and>
     (\<forall>n w1 e w2. isDBOpen d \<and>
        iFJson_createDatabaseSchema c (mDB d) jsonData (world d) = (Inr n, w1) \<and> n \<noteq> - 1 \<and>
        iFJson_createTablesData c (mDB d) jsonData w1 = (Inl e, w2) \<longrightarrow>
        r = Rejected (''ImportJson: '' @ e) \<and> world d' = w2 \<and>
        events_of d d' = [(CreateDatabaseSchema, Gave (Num n)), (CreateTablesData, Threw e)]) \<and>
     (\<not> isDBOpen d \<longrightarrow> r = Rejected ''ImportJson: database is closed'' \<and> d' = d)"
proof -
  obtain r d' where run: "importJson c jsonData d = (r, d')"
    by (cases "importJson c jsonData d")
  from run have logged:
    "each_preceded (\<lambda>ev. fst ev = CreateTablesData) schema_succeeded None (events_of d d') \<and>
     (\<forall>e. (CreateDatabaseSchema, Threw e) \<in> set (events_of d d') \<longrightarrow>
        r = Rejected (''ImportJson: '' @ e) \<and>
        \<not> list_ex (\<lambda>ev. fst ev = CreateTablesData) (events_of d d')) \<and>
     ((CreateDatabaseSchema, Gave (Num (- 1))) \<in> set (events_of d d') \<longrightarrow>
        r = Resolved (Some (- 1)) \<and>
        \<not> list_ex (\<lambda>ev. fst ev = CreateTablesData) (events_of d d'))"
    by (auto simp: importJson_def async_def ctl_defs await_run events_of_def
        split: prod.splits sum.splits if_splits)
  from run have thrown:
    "\<forall>e w1. isDBOpen d \<and>
        iFJson_createDatabaseSchema c (mDB d) jsonData (world d) = (Inl e, w1) \<longrightarrow>
        r = Rejected (''ImportJson: '' @ e) \<and> world d' = w1 \<and>
        events_of d d' = [(CreateDatabaseSchema, Threw e)]"
    by (auto simp: importJson_def async_def ctl_defs await_run events_of_def)
  from run have sentinel:
    "\<forall>w1. isDBOpen d \<and>
        iFJson_createDatabaseSchema c (mDB d) jsonData (world d) = (Inr (- 1), w1) \<longrightarrow>
        r = Resolved (Some (- 1)) \<and> world d' = w1 \<and>
        events_of d d' = [(CreateDatabaseSchema, Gave (Num (- 1)))]"
    by (auto simp: importJson_def async_def ctl_defs await_run events_of_def)
  from run have both:
    "\<forall>n w1 m w2. isDBOpen d \<and>
        iFJson_createDatabaseSchema c (mDB d) jsonData (world d) = (Inr n, w1) \<and> n \<noteq> - 1 \<and>
        iFJson_createTablesData c (mDB d) jsonData w1 = (Inr m, w2) \<longrightarrow>
        r = Resolved (Some m) \<and> world d' = w2 \<and>
        events_of d d' = [(CreateDatabaseSchema, Gave (Num n)), (CreateTablesData, Gave (Num m))]"
    by (auto simp: importJson_def async_def ctl_defs await_run events_of_def)
  from run have data_thrown:
    "\<forall>n w1 e w2. isDBOpen d \<and>
        iFJson_createDatabaseSchema c (mDB d) jsonData (world d) = (Inr n, w1) \<and> n \<noteq> - 1 \<and>
        iFJson_createTablesData c (mDB d) jsonData w1 = (Inl e, w2) \<longrightarrow>
        r = Rejected (''ImportJson: '' @ e) \<and> world d' = w2 \<and>
        events_of d d' = [(CreateDatabaseSchema, Gave (Num n)), (CreateTablesData, Threw e)]"
    by (auto simp: importJson_def async_def ctl_defs await_run events_of_def)
  from run have shut: "\<not> isDBOpen d \<longrightarrow> r = Rejected ''ImportJson: database is closed'' \<and> d' = d"
    by (auto simp: importJson_def async_def ctl_defs)
  from logged thrown sentinel both data_thrown shut run show ?thesis
    by simp
qed

theorem importJson_two_phase_witness:
  "(CreateDatabaseSchema, Threw ''table users already exists'') \<in>
      set (events_of opened_db
             (snd (importJson ((spec_collaborators no_faults)\<lparr>iFJson_createDatabaseSchema :=
                      (\<lambda>h doc. failing ''table users already exists'')\<rparr>) app_json opened_db))) \<and>
   importJson ((spec_collaborators no_faults)\<lparr>iFJson_createDatabaseSchema :=
       (\<lambda>h doc. failing ''table users already exists'')\<rparr>) app_json opened_db =
     (Rejected ''ImportJson: table users already exists'',
      opened_db\<lparr>calls := [(CreateDatabaseSchema, Threw ''table users already exists'')]\<rparr>) \<and>
   (CreateDatabaseSchema, Gave (Num (- 1))) \<in>
      set (events_of opened_db
             (snd (importJson ((spec_collaborators no_faults)\<lparr>iFJson_createDatabaseSchema :=
                      (\<lambda>h doc. succeed (- 1))\<rparr>) app_json opened_db))) \<and>
   importJson ((spec_collaborators no_faults)\<lparr>iFJson_createDatabaseSchema :=
       (\<lambda>h doc. succeed (- 1))\<rparr>) app_json opened_db =
     (Resolved (Some (- 1)),
      opened_db\<lparr>calls := [(CreateDatabaseSchema, Gave (Num (- 1)))]\<rparr>) \<and>
   importJson ((spec_collaborators no_faults)\<lparr>iFJson_createDatabaseSchema := (\<lambda>h doc. succeed 3),
       iFJson_createTablesData := (\<lambda>h doc. succeed 7)\<rparr>) app_json opened_db =
     (Resolved (Some 7),
      opened_db\<lparr>calls := [(CreateDatabaseSchema, Gave (Num 3)), (CreateTablesData, Gave (Num 7))]\<rparr>) \<and>
   importJson ((spec_collaborators no_faults)\<lparr>iFJson_createDatabaseSchema := (\<lambda>h doc. succeed 3),
       iFJson_createTablesData := (\<lambda>h doc. failing ''datatype mismatch'')\<rparr>) app_json opened_db =
     (Rejected ''ImportJson: datatype mismatch'',
      opened_db\<lparr>calls := [(CreateDatabaseSchema, Gave (Num 3)),
                            (CreateTablesData, Threw ''datatype mismatch'')]\<rparr>) \<and>
   importJson (spec_collaborators no_faults) app_json (opened_db\<lparr>isDBOpen := False\<rparr>) =
     (Rejected ''ImportJson: database is closed'', opened_db\<lparr>isDBOpen := False\<rparr>)"
  using importJson_two_phase
    [where c = "(spec_collaborators no_faults)\<lparr>iFJson_createDatabaseSchema :=
           (\<lambda>h doc. failing ''table users already exists'')\<rparr>" and jsonData = app_json and d = opened_db]
    importJson_two_phase
    [where c = "(spec_collaborators no_faults)\<lparr>iFJson_createDatabaseSchema :=
           (\<lambda>h doc. succeed (- 1))\<rparr>" and jsonData = app_json and d = opened_db]
    importJson_two_phase
    [where c = "(spec_collaborators no_faults)\<lparr>iFJson_createDatabaseSchema := (\<lambda>h doc. succeed 3),
       iFJson_createTablesData := (\<lambda>h doc. succeed 7)\<rparr>" and jsonData = app_json and d = opened_db]
    importJson_two_phase
    [where c = "(spec_collaborators no_faults)\<lparr>iFJson_createDatabaseSchema := (\<lambda>h doc. succeed 3),
       iFJson_createTablesData := (\<lambda>h doc. failing ''datatype mismatch'')\<rparr>"
       and jsonData = app_json and d = opened_db]
    importJson_two_phase
    [where c = "spec_collaborators no_faults" and jsonData = app_json
       and d = "opened_db\<lparr>isDBOpen := False\<rparr>"]
  by (simp add: importJson_def async_def ctl_defs await_run events_of_def spec_defs input_defs)

section \<open>The snapshot round trip\<close>

lemma backup_name_distinct: "''backup-'' @ name \<noteq> name" "name \<noteq> ''backup-'' @ name"
proof -
  have "length (''backup-'' @ name) \<noteq> length name"
    by simp
  then show "''backup-'' @ name \<noteq> name" and "name \<noteq> ''backup-'' @ name"
    by metis+
qed

text \<open>Every object the constructor makes has the path made for its name.\<close>

lemma new_Database_path:
  "new_Database c name enc md ver upgDict w = Inr d \<Longrightarrow> pathDB d = uFile_getFilePath c (dbName d)"
  by (auto simp: new_Database_def Let_def split: if_splits)

lemma entry_content_existing: "w name = Some ct \<Longrightarrow> entry_content w name = ct"
  by (simp add: entry_content_def)

text \<open>
  With the modelled driver, \<^verbatim>\<open>open\<close> reaches the version read, the file exists from then
  on, and the version read is the one stored in it.
\<close>

lemma spec_open_connect:
  assumes at_path: "pathDB d = uFile_getFilePath (spec_collaborators fl) (dbName d)"
    and oc: "open_connect (spec_collaborators fl) d = (x, d1)"
  shows "x = Next (user_version (entry_content (world d) (dbName d)))"
    and "world d1 (dbName d) = Some (entry_content (world d) (dbName d))"
    and "isDBOpen d1"
    and "dbName d1 = dbName d" and "version d1 = version d" and "vUpgDict d1 = vUpgDict d"
    and "mDB d1 = Some (dbName d)" and "calls d1 = calls d @ events_of d d1"
  using assms
  by (auto simp: open_connect_def Let_def ctl_defs await_run void_def events_of_def
      spec_collaborators_def spec_openOrCreateDatabase_def spec_getVersion_def succeed_def
      entry_content_def split: if_splits option.splits)

text \<open>
  With the modelled engine and files, a failing step makes \<^verbatim>\<open>onUpgrade\<close> throw after the
  snapshot, and the restore, unless it fails itself, puts the snapshot back.
\<close>

lemma spec_open_upgrade_failed:
  assumes has_file: "world d (dbName d) = Some ct"
    and fails: "fst (apply_steps (applicable (vUpgDict d) cur (version d)) ct) = Some e"
    and ou: "open_upgrade (spec_collaborators fl) cur d = (y, d2)"
  shows "calls d2 = calls d @ events_of d d2"
    and "(OnUpgrade cur (version d), Threw e) \<in> set (events_of d d2)"
    and "restore_fault fl = None \<Longrightarrow> y = Next () \<and> world d2 (dbName d) = Some ct"
    and "restore_fault fl = Some m \<Longrightarrow> y = Return (Rejected (''Open: '' @ m))"
    and "events_of d d2 =
           [(OnUpgrade cur (version d), Threw e),
            (RestoreFileName (dbName d) ''backup'',
             case restore_fault fl of None \<Rightarrow> Gave Void | Some m \<Rightarrow> Threw m)]"
proof -
  obtain ct' where steps: "apply_steps (applicable (vUpgDict d) cur (version d)) ct = (Some e, ct')"
    using fails by (cases "apply_steps (applicable (vUpgDict d) cur (version d)) ct") simp
  have up: "spec_onUpgrade (mDB d) (vUpgDict d) (dbName d) cur (version d) (world d) =
      (Inl e, (world d)(''backup-'' @ dbName d \<mapsto> ct, dbName d \<mapsto> ct'))"
    using has_file steps by (simp add: spec_onUpgrade_def)
  have kept: "((world d)(''backup-'' @ dbName d \<mapsto> ct, dbName d \<mapsto> ct')) (''backup-'' @ dbName d) = Some ct"
    using backup_name_distinct [of "dbName d"] by (simp del: append.simps)
  have joined: "''backup'' @ ''-'' @ dbName d = ''backup-'' @ dbName d"
    by simp
  show "calls d2 = calls d @ events_of d d2"
    using open_upgrade_run [OF ou] by simp
  show "(OnUpgrade cur (version d), Threw e) \<in> set (events_of d d2)"
    using ou up
    by (auto simp: open_upgrade_def ctl_defs await_run void_def events_of_def
        spec_collaborators_def split: prod.splits sum.splits)
  show "y = Next () \<and> world d2 (dbName d) = Some ct" if "restore_fault fl = None"
    using ou up kept that unfolding open_upgrade_def ctl_defs await_run
    by (auto simp: void_def spec_collaborators_def spec_restoreFileName_def joined
        simp del: append.simps)
  show "y = Return (Rejected (''Open: '' @ m))" if "restore_fault fl = Some m"
    using ou up that unfolding open_upgrade_def ctl_defs await_run
    by (auto simp: void_def spec_collaborators_def spec_restoreFileName_def)
  show "events_of d d2 =
           [(OnUpgrade cur (version d), Threw e),
            (RestoreFileName (dbName d) ''backup'',
             case restore_fault fl of None \<Rightarrow> Gave Void | Some m \<Rightarrow> Threw m)]"
  proof (cases "restore_fault fl")
    case None
    with ou up kept show ?thesis
      unfolding open_upgrade_def ctl_defs await_run
      by (auto simp: void_def events_of_def spec_collaborators_def spec_restoreFileName_def joined
          simp del: append.simps)
  next
    case (Some m)
    with ou up show ?thesis
      unfolding open_upgrade_def ctl_defs await_run
      by (auto simp: void_def events_of_def spec_collaborators_def spec_restoreFileName_def)
  qed
qed

text \<open>
  C1 as stated fails: a step of the upgrade fails, the restore succeeds, and \<^verbatim>\<open>open()\<close>
  resolves, so its caller is not told of the failure.
\<close>

theorem failed_step_open_resolves:
  "fst (open_db (spec_collaborators no_faults) (app_db [(1, failing_step)])) = Resolved () \<and>
   calls (snd (open_db (spec_collaborators no_faults) (app_db [(1, failing_step)]))) =
     [(OpenOrCreateDatabase, Gave (Handle ''appSQLite.db'')),
      (GetVersion, Gave (Num 0)),
      (OnUpgrade 0 2, Threw ''no such table: orders''),
      (RestoreFileName ''appSQLite.db'' ''backup'', Gave Void)]"
  by (simp add: open_defs spec_defs input_defs)

text \<open>
  C1, as amended, over the modelled files and engine, for every \<^verbatim>\<open>open()\<close> on an object
  whose path is the one made for its name. \<^verbatim>\<open>open()\<close> finds the database below the
  target version and a step of the upgrade fails. Then \<^verbatim>\<open>restoreFileName\<close> is the last
  call of \<^verbatim>\<open>open()\<close>. When the restore succeeds, the file holds again the content the
  database had when the upgrade flow was entered, which is the content before the call
  for a file that existed before the call and the empty database for a file that
  \<^verbatim>\<open>open()\<close> created, and \<^verbatim>\<open>open()\<close> resolves, the database flagged open; when the restore
  fails with \<open>m\<close>, \<^verbatim>\<open>open()\<close> rejects with \<^verbatim>\<open>Open: m\<close>.
\<close>

theorem open_failed_step_restored:
  assumes at_path: "pathDB d = uFile_getFilePath (spec_collaborators fl) (dbName d)"
    and stale: "user_version (entry_content (world d) (dbName d)) < version d"
    and fails: "fst (apply_steps
                       (applicable (vUpgDict d)
                          (user_version (entry_content (world d) (dbName d))) (version d))
                       (entry_content (world d) (dbName d))) = Some e"
  shows "(OnUpgrade (user_version (entry_content (world d) (dbName d))) (version d), Threw e)
           \<in> set (events_of d (snd (open_db (spec_collaborators fl) d))) \<and>
         last (events_of d (snd (open_db (spec_collaborators fl) d))) =
           (RestoreFileName (dbName d) ''backup'',
            case restore_fault fl of None \<Rightarrow> Gave Void | Some m \<Rightarrow> Threw m) \<and>
         (case restore_fault fl of
            None \<Rightarrow>
              fst (open_db (spec_collaborators fl) d) = Resolved () \<and>
              isDBOpen (snd (open_db (spec_collaborators fl) d)) \<and>
              world (snd (open_db (spec_collaborators fl) d)) (dbName d) =
                Some (entry_content (world d) (dbName d)) \<and>
              (case world d (dbName d) of
                 Some ct \<Rightarrow> world (snd (open_db (spec_collaborators fl) d)) (dbName d) = Some ct
               | None \<Rightarrow>
                   world (snd (open_db (spec_collaborators fl) d)) (dbName d) =
                     Some \<lparr>user_version = 0, tables = []\<rparr>)
          | Some m \<Rightarrow> fst (open_db (spec_collaborators fl) d) = Rejected (''Open: '' @ m))"
proof -
  define ct where "ct = entry_content (world d) (dbName d)"
  define d0 where "d0 = d\<lparr>isDBOpen := False\<rparr>"
  have at_path0: "pathDB d0 = uFile_getFilePath (spec_collaborators fl) (dbName d0)"
    using at_path by (simp add: d0_def)
  obtain x d1 where oc: "open_connect (spec_collaborators fl) d0 = (x, d1)"
    by (cases "open_connect (spec_collaborators fl) d0")
  note c1 = spec_open_connect [OF at_path0 oc]
  have x: "x = Next (user_version ct)" and opened: "isDBOpen d1"
    and has_file1: "world d1 (dbName d1) = Some ct"
    and same: "dbName d1 = dbName d" "version d1 = version d" "vUpgDict d1 = vUpgDict d"
    and cl1: "calls d1 = calls d @ events_of d d1"
    using c1 by (simp_all add: d0_def events_of_def ct_def)
  obtain y d2 where ou: "open_upgrade (spec_collaborators fl) (user_version ct) d1 = (y, d2)"
    by (cases "open_upgrade (spec_collaborators fl) (user_version ct) d1")
  have fails1: "fst (apply_steps (applicable (vUpgDict d1) (user_version ct) (version d1)) ct) = Some e"
    using fails same by (simp add: ct_def)
  have stale1: "user_version ct < version d"
    using stale by (simp add: ct_def)
  note u1 = spec_open_upgrade_failed [OF has_file1 fails1 ou]
  have opened2: "isDBOpen d2"
    using open_upgrade_run [OF ou] opened by simp
  have split: "events_of d d2 = events_of d d1 @ events_of d1 d2"
    using cl1 u1(1) by (rule events_of_append)
  then have thrown: "(OnUpgrade (user_version ct) (version d), Threw e) \<in> set (events_of d d2)"
    using u1(2) same by simp
  have final: "last (events_of d d2) =
      (RestoreFileName (dbName d) ''backup'',
       case restore_fault fl of None \<Rightarrow> Gave Void | Some m \<Rightarrow> Threw m)"
    unfolding split u1(5) same by simp
  have fresh: "case world d (dbName d) of
      Some ct' \<Rightarrow> ct = ct' | None \<Rightarrow> ct = \<lparr>user_version = 0, tables = []\<rparr>"
    by (simp add: ct_def entry_content_def split: option.splits)
  show ?thesis
  proof (cases "restore_fault fl")
    case None
    with u1(3) same have y: "y = Next ()" and restored: "world d2 (dbName d) = Some ct"
      by simp_all
    have "open_db (spec_collaborators fl) d = (Resolved (), d2)"
      using oc stale1 ou unfolding x y d0_def by (rule open_db_upgrade_next)
    with None thrown final opened2 restored fresh show ?thesis
      unfolding ct_def [symmetric] by (simp split: option.splits)
  next
    case (Some m)
    with u1(4) have y: "y = Return (Rejected (''Open: '' @ m))"
      by simp
    have "open_db (spec_collaborators fl) d = (Rejected (''Open: '' @ m), d2)"
      using oc stale1 ou unfolding x y d0_def by (rule open_db_upgrade_return)
    with Some thrown final show ?thesis
      unfolding ct_def [symmetric] by simp
  qed
qed

theorem open_failed_step_restored_witness:
  "world (app_db [(2, failing_step), (1, add_table ''orders'')]) ''appSQLite.db'' =
     Some \<lparr>user_version = 0, tables = [''users'']\<rparr> \<and>
   fst (apply_steps (applicable [(2, failing_step), (1, add_table ''orders'')] 0 2)
          \<lparr>user_version = 0, tables = [''users'']\<rparr>) = Some ''no such table: orders'' \<and>
   fst (open_db (spec_collaborators no_faults) (app_db [(2, failing_step), (1, add_table ''orders'')])) =
     Resolved () \<and>
   world (snd (open_db (spec_collaborators no_faults)
                 (app_db [(2, failing_step), (1, add_table ''orders'')]))) ''appSQLite.db'' =
     Some \<lparr>user_version = 0, tables = [''users'']\<rparr> \<and>
   last (calls (snd (open_db (spec_collaborators no_faults)
                 (app_db [(2, failing_step), (1, add_table ''orders'')])))) =
     (RestoreFileName ''appSQLite.db'' ''backup'', Gave Void) \<and>
   world ((app_db [(1, failing_step)])\<lparr>world := Map.empty\<rparr>) ''appSQLite.db'' = None \<and>
   fst (open_db (spec_collaborators no_faults) ((app_db [(1, failing_step)])\<lparr>world := Map.empty\<rparr>)) =
     Resolved () \<and>
   world (snd (open_db (spec_collaborators no_faults)
                 ((app_db [(1, failing_step)])\<lparr>world := Map.empty\<rparr>))) ''appSQLite.db'' =
     Some \<lparr>user_version = 0, tables = []\<rparr> \<and>
   fst (open_db (spec_collaborators (no_faults\<lparr>restore_fault := Some ''EIO''\<rparr>))
          (app_db [(1, failing_step)])) = Rejected ''Open: EIO''"
  using open_failed_step_restored
    [where d = "app_db [(2, failing_step), (1, add_table ''orders'')]"
       and e = "''no such table: orders''" and fl = no_faults]
    open_failed_step_restored
    [where d = "(app_db [(1, failing_step)])\<lparr>world := Map.empty\<rparr>"
       and e = "''no such table: orders''" and fl = no_faults]
    open_failed_step_restored
    [where d = "app_db [(1, failing_step)]"
       and e = "''no such table: orders''" and fl = "no_faults\<lparr>restore_fault := Some ''EIO''\<rparr>"]
  by (simp add: spec_defs input_defs entry_content_def events_of_def)

end
